theory Spec2Isabelle
  imports Complex_Main "HOL-Library.AList" "HOL-Library.Sublist"
begin

section \<open>JavaScript values\<close>

text \<open>
  The handlers and the database wrapper are JavaScript (ES modules, so strict mode).
  A value is one of the language's kinds of value, by what \<^verbatim>\<open>typeof\<close> tells apart.
  A number is an IEEE double: not-a-number, an infinity, or a finite value, carried
  as the real it denotes (both zeros are the real 0). An object is its own
  properties in insertion order; an array is its elements and its named properties.
  Strings are \<^typ>\<open>string\<close>: ASCII text as it stands, any other character as the bytes
  of its UTF-8 encoding.
\<close>

datatype jsnum = NaN | Infinity bool | Finite real

datatype jsval =
    JUndefined
  | JNull
  | JBool bool
  | JNum jsnum
  | JBigInt int
  | JStr string
  | JSymbol string
  | JFunction nat
  | JArr "jsval list" "(string \<times> jsval) list"
  | JObj "(string \<times> jsval) list"

text \<open>
  The language's conversion to boolean, which \<^verbatim>\<open>!v\<close>, \<^verbatim>\<open>v ? a : b\<close> and
  \<^verbatim>\<open>if (v)\<close> apply: undefined, null, false, zero, not-a-number, the zero big integer and
  the empty string are falsy, every other value is truthy.
\<close>

fun truthy :: "jsval \<Rightarrow> bool" where
  "truthy JUndefined = False"
| "truthy JNull = False"
| "truthy (JBool b) = b"
| "truthy (JNum NaN) = False"
| "truthy (JNum (Infinity s)) = True"
| "truthy (JNum (Finite r)) = (r \<noteq> 0)"
| "truthy (JBigInt i) = (i \<noteq> 0)"
| "truthy (JStr s) = (s \<noteq> [])"
| "truthy (JSymbol d) = True"
| "truthy (JFunction f) = True"
| "truthy (JArr xs ps) = True"
| "truthy (JObj ps) = True"

text \<open>
  \<^verbatim>\<open>String.prototype.toLowerCase\<close> on the letters A to Z, for the places where the
  lower-cased text is only compared with an ASCII word (\<^verbatim>\<open>'true'\<close>, \<^verbatim>\<open>'false'\<close>, a
  header name). No character outside ASCII has a lower-case form that is an ASCII letter
  of these words, so leaving the other bytes alone does not change any such comparison.
  Where the lower-cased text itself is kept, in \<^verbatim>\<open>connectionParams\<close>, the engine's
  function is a parameter instead.
\<close>

definition toLowerCase_char :: "char \<Rightarrow> char" where
  "toLowerCase_char c =
     (let n = (of_char c :: nat) in if 65 \<le> n \<and> n \<le> 90 then char_of (n + 32) else c)"

definition toLowerCase :: "string \<Rightarrow> string" where
  "toLowerCase s = map toLowerCase_char s"


section \<open>lib/mysqldb.js: the boolean adapters\<close>

text \<open>
  \<^verbatim>\<open>
  static trueFalseToBool(value) {
      if (typeof value == 'string' && value.toLowerCase() == 'true') return true;
      if (typeof value == 'string' && value.toLowerCase() == 'false') return false;
      return undefined;
  }
  \<close>
  The method call \<^verbatim>\<open>value.toLowerCase()\<close> is guarded by the type test, so it is only
  ever made on a string.
\<close>

fun trueFalseToBool :: "jsval \<Rightarrow> jsval" where
  "trueFalseToBool (JStr s) =
     (if toLowerCase s = ''true'' then JBool True
      else if toLowerCase s = ''false'' then JBool False
      else JUndefined)"
| "trueFalseToBool v = JUndefined"

text \<open>
  \<^verbatim>\<open>
  static boolToTrueFalse(value) {
      if (value === undefined) return undefined;
      if (value === null) return undefined;
      return value ? 'true' : 'false';
  }
  \<close>
\<close>

definition boolToTrueFalse :: "jsval \<Rightarrow> jsval" where
  "boolToTrueFalse v =
     (if v = JUndefined then JUndefined
      else if v = JNull then JUndefined
      else if truthy v then JStr ''true'' else JStr ''false'')"

text \<open>
  Two strings are equal under case-insensitive comparison when they have the same
  length and, position by position, the same character or the two cases of one letter.
\<close>

definition same_letter :: "char \<Rightarrow> char \<Rightarrow> bool" where
  "same_letter c d =
     (c = d
      \<or> (65 \<le> (of_char c :: nat) \<and> (of_char c :: nat) \<le> 90 \<and> (of_char d :: nat) = of_char c + 32)
      \<or> (65 \<le> (of_char d :: nat) \<and> (of_char d :: nat) \<le> 90 \<and> (of_char c :: nat) = of_char d + 32))"

definition equal_ignoring_case :: "string \<Rightarrow> string \<Rightarrow> bool" where
  "equal_ignoring_case s t = list_all2 same_letter s t"


section \<open>Exceptions\<close>

text \<open>
  What a \<^verbatim>\<open>throw\<close> carries: a plain \<^verbatim>\<open>Error\<close> with its message, the engine's
  \<^verbatim>\<open>TypeError\<close> (with the message text of V8), the error that
  \<^verbatim>\<open>ctx.throw(status, message)\<close> raises, and an error of the database driver with its
  \<^verbatim>\<open>code\<close> and message.
\<close>

datatype exn =
    Error string
  | TypeError string
  | HttpError nat string
  | StoreError string string

fun message :: "exn \<Rightarrow> string" where
  "message (Error m) = m"
| "message (TypeError m) = m"
| "message (HttpError st m) = m"
| "message (StoreError c m) = m"

text \<open>\<^verbatim>\<open>e.code\<close>: only the driver's errors have one.\<close>

fun code :: "exn \<Rightarrow> string option" where
  "code (StoreError c m) = Some c"
| "code e = None"


section \<open>Strings: the regular expression, split and trim\<close>

text \<open>
  The one regular expression of \<^verbatim>\<open>lib/mysqldb.js\<close> is a sequence of literals and
  capture groups \<^verbatim>\<open>(.+)\<close>. A group is greedy: it first takes every character up to the
  next line terminator and gives characters back one at a time, down to one character,
  until the rest of the expression matches. \<^verbatim>\<open>String.prototype.match\<close> without the
  global flag tries each start position from the left and returns the first match;
  \<open>search\<close> returns the captured groups of that match. The dot matches every code
  unit but the four line terminators: U+000A, U+000D, and U+2028 and U+2029, which are
  the bytes E2 80 A8 and E2 80 A9 in UTF-8. Every literal of the expressions used here
  is ASCII, so a match never ends inside a character of several bytes.
\<close>

definition line_terminator_at :: "string \<Rightarrow> bool" where
  "line_terminator_at s =
     (prefix [CHR 0x0A] s \<or> prefix [CHR 0x0D] s
      \<or> prefix [CHR 0xE2, CHR 0x80, CHR 0xA8] s \<or> prefix [CHR 0xE2, CHR 0x80, CHR 0xA9] s)"

text \<open>How far a dot can run from the start of a string.\<close>

fun dot_run :: "string \<Rightarrow> nat" where
  "dot_run [] = 0"
| "dot_run (c # cs) = (if line_terminator_at (c # cs) then 0 else Suc (dot_run cs))"

datatype regex_item = Lit string | DotPlus

fun match_items :: "regex_item list \<Rightarrow> string \<Rightarrow> string list option"
  and try_lengths :: "regex_item list \<Rightarrow> string \<Rightarrow> nat \<Rightarrow> string list option" where
  "match_items [] s = Some []"
| "match_items (Lit l # r) s =
     (if prefix l s then match_items r (drop (length l) s) else None)"
| "match_items (DotPlus # r) s =
     try_lengths r s (dot_run s)"
| "try_lengths r s 0 = None"
| "try_lengths r s (Suc n) =
     (case match_items r (drop (Suc n) s) of
        Some groups \<Rightarrow> Some (take (Suc n) s # groups)
      | None \<Rightarrow> try_lengths r s n)"

fun search :: "regex_item list \<Rightarrow> string \<Rightarrow> string list option" where
  "search re [] = match_items re []"
| "search re (c # cs) =
     (case match_items re (c # cs) of
        Some groups \<Rightarrow> Some groups
      | None \<Rightarrow> search re cs)"

text \<open>\<^verbatim>\<open>s.split(sep)\<close> for a one-character separator; it never returns an empty array.\<close>

fun split :: "char \<Rightarrow> string \<Rightarrow> string list" where
  "split sep [] = [[]]"
| "split sep (c # cs) =
     (if c = sep then [] # split sep cs
      else (case split sep cs of
              [] \<Rightarrow> [[c]]
            | w # ws \<Rightarrow> (c # w) # ws))"

text \<open>
  \<^verbatim>\<open>String.prototype.trim\<close> removes white space and line terminators from both ends:
  U+0009 to U+000D, U+0020, U+00A0, U+1680, U+2000 to U+200A, U+2028, U+2029, U+202F,
  U+205F, U+3000 and U+FEFF, here in their UTF-8 encodings.
\<close>

definition white_space_codes :: "string list" where
  "white_space_codes =
     [[CHR 0x09], [CHR 0x0A], [CHR 0x0B], [CHR 0x0C], [CHR 0x0D], [CHR 0x20],
      [CHR 0xC2, CHR 0xA0],
      [CHR 0xE1, CHR 0x9A, CHR 0x80],
      [CHR 0xE2, CHR 0x80, CHR 0x80], [CHR 0xE2, CHR 0x80, CHR 0x81],
      [CHR 0xE2, CHR 0x80, CHR 0x82], [CHR 0xE2, CHR 0x80, CHR 0x83],
      [CHR 0xE2, CHR 0x80, CHR 0x84], [CHR 0xE2, CHR 0x80, CHR 0x85],
      [CHR 0xE2, CHR 0x80, CHR 0x86], [CHR 0xE2, CHR 0x80, CHR 0x87],
      [CHR 0xE2, CHR 0x80, CHR 0x88], [CHR 0xE2, CHR 0x80, CHR 0x89],
      [CHR 0xE2, CHR 0x80, CHR 0x8A],
      [CHR 0xE2, CHR 0x80, CHR 0xA8], [CHR 0xE2, CHR 0x80, CHR 0xA9],
      [CHR 0xE2, CHR 0x80, CHR 0xAF],
      [CHR 0xE2, CHR 0x81, CHR 0x9F],
      [CHR 0xE3, CHR 0x80, CHR 0x80],
      [CHR 0xEF, CHR 0xBB, CHR 0xBF]]"

text \<open>
  Removing, from the start of a string, every leading occurrence of the given codes:
  where a code starts, its bytes are skipped, and the search goes on behind it.
\<close>

fun strip_start :: "string list \<Rightarrow> nat \<Rightarrow> string \<Rightarrow> string" where
  "strip_start codes skip [] = []"
| "strip_start codes skip (c # cs) =
     (case skip of
        Suc n \<Rightarrow> strip_start codes n cs
      | 0 \<Rightarrow>
          (case find (\<lambda>w. w \<noteq> [] \<and> prefix w (c # cs)) codes of
             None \<Rightarrow> c # cs
           | Some w \<Rightarrow> strip_start codes (length w - 1) cs))"

definition trim :: "string \<Rightarrow> string" where
  "trim s =
     rev (strip_start (map rev white_space_codes) 0
            (rev (strip_start white_space_codes 0 s)))"


section \<open>lib/mysqldb.js: connectionParams\<close>

type_synonym jsobj = "(string \<times> jsval) list"

text \<open>\<^verbatim>\<open>v[i]\<close> on an array of strings: undefined beyond its end.\<close>

definition js_index :: "string list \<Rightarrow> nat \<Rightarrow> jsval" where
  "js_index xs i = (if i < length xs then JStr (xs ! i) else JUndefined)"

text \<open>
  \<^verbatim>\<open>config[k] = v\<close> on a plain object: the property is replaced where it is, or added
  last. The name \<^verbatim>\<open>__proto__\<close> is the prototype accessor, which ignores a string or
  undefined and creates no property.
\<close>

definition assign :: "string \<Rightarrow> jsval \<Rightarrow> jsobj \<Rightarrow> jsobj" where
  "assign k v config = (if k = ''__proto__'' then config else AList.update k v config)"

text \<open>
  \<^verbatim>\<open>/mysql:\/\/(.+):(.+)@(.+)\/(.+)/\<close>
\<close>

definition urlLike :: "regex_item list" where
  "urlLike =
     [Lit ''mysql://'', DotPlus, Lit '':'', DotPlus, Lit ''@'', DotPlus, Lit ''/'', DotPlus]"

text \<open>
  \<^verbatim>\<open>dbConfigKeyVal.reduce((config, v) => { config[v[0].toLowerCase()] = v[1]; return config; }, {})\<close>
  Reading \<^verbatim>\<open>v[0]\<close> of an empty array would give undefined, whose \<^verbatim>\<open>toLowerCase\<close> is
  a type error. The lower-cased key is kept as a property name, so here the whole
  Unicode case mapping of the engine matters: \<open>lower\<close> is the engine's
  \<^verbatim>\<open>String.prototype.toLowerCase\<close>, a parameter.
\<close>

fun reduce_config :: "(string \<Rightarrow> string) \<Rightarrow> string list list \<Rightarrow> jsobj \<Rightarrow> exn + jsobj" where
  "reduce_config lower [] config = Inr config"
| "reduce_config lower (v # vs) config =
     (case v of
        [] \<Rightarrow> Inl (TypeError ''Cannot read properties of undefined (reading 'toLowerCase')'')
      | k # rest \<Rightarrow> reduce_config lower vs (assign (lower k) (js_index v 1) config))"

text \<open>
  \<^verbatim>\<open>
  static connectionParams() {
      const connectionString = process.env.DB_MYSQL_CONNECTION;
      if (!connectionString) throw new Error('No DB_MYSQL_CONNECTION available');
      const urlLikeConnectionString = connectionString.match(/mysql:\/\/(.+):(.+)@(.+)\/(.+)/);
      if (urlLikeConnectionString) {
          const [ , user, password, host, database ] = urlLikeConnectionString;
          const dbConfig = { user, password, host, database };
          return dbConfig;
      } else {
          const dbConfigKeyVal = connectionString.split(';').map(v => v.trim().split('='));
          const dbConfig = dbConfigKeyVal.reduce(..., {});
          return dbConfig;
      }
  }
  \<close>
  The argument is the environment variable: absent, or a string.
\<close>

definition connectionParams :: "(string \<Rightarrow> string) \<Rightarrow> string option \<Rightarrow> exn + jsobj" where
  "connectionParams lower env =
     (case env of
        None \<Rightarrow> Inl (Error ''No DB_MYSQL_CONNECTION available'')
      | Some connectionString \<Rightarrow>
          if connectionString = [] then Inl (Error ''No DB_MYSQL_CONNECTION available'')
          else
            (case search urlLike connectionString of
               Some groups \<Rightarrow>
                 Inr [(''user'', js_index groups 0), (''password'', js_index groups 1),
                      (''host'', js_index groups 2), (''database'', js_index groups 3)]
             | None \<Rightarrow>
                 reduce_config lower
                   (map (\<lambda>v. split CHR ''='' (trim v)) (split CHR '';'' connectionString)) []))"

text \<open>
  The two documented forms of a connection string. The URI form is what the regular
  expression recognises; the key-value form is a list of pieces \<^verbatim>\<open>key=value\<close> with a
  non-empty key, separated by semicolons. A string of neither form is malformed.
\<close>

definition uri_form :: "string \<Rightarrow> bool" where
  "uri_form s = (search urlLike s \<noteq> None)"

definition key_value_form :: "string \<Rightarrow> bool" where
  "key_value_form s =
     list_all (\<lambda>piece. case split CHR ''='' (trim piece) of
                          [k, v] \<Rightarrow> k \<noteq> []
                        | _ \<Rightarrow> False)
       (split CHR '';'' s)"

definition well_formed :: "string \<Rightarrow> bool" where
  "well_formed s = (uri_form s \<or> key_value_form s)"

text \<open>
  A part of a URI-form connection string that the expression captures as it stands:
  not empty, without a line terminator, and without any of the given characters.
\<close>

definition part_ok :: "string \<Rightarrow> string \<Rightarrow> bool" where
  "part_ok excluded x =
     (x \<noteq> [] \<and> dot_run x = length x \<and> list_all (\<lambda>c. c \<notin> set excluded) x)"

text \<open>
  The properties the key-value branch creates, as name and value per piece, in order:
  the name is the lower-cased first part of the trimmed piece split at the equals signs,
  the value its second part, undefined when there is none.
\<close>

definition key_value_pairs :: "(string \<Rightarrow> string) \<Rightarrow> string \<Rightarrow> (string \<times> jsval) list" where
  "key_value_pairs lower s =
     filter (\<lambda>kv. fst kv \<noteq> ''__proto__'')
       (map (\<lambda>piece. (lower (hd (split CHR ''='' (trim piece))),
                       js_index (split CHR ''='' (trim piece)) 1))
          (split CHR '';'' s))"


section \<open>The Koa context\<close>

text \<open>
  What the middleware and the handlers read and write of Koa's \<^verbatim>\<open>ctx\<close>. Header names
  are held in lower case, as Node holds them. \<^verbatim>\<open>ctx.state.auth\<close> is the payload of the
  verified token: its role, a string when present, and the token itself.
  \<^verbatim>\<open>ctx.params.id\<close> is the path parameter of the route, a string.
\<close>

record request =
  req_method :: string
  req_url :: string
  req_href :: string
  req_host :: string
  req_protocol :: string
  req_secure :: bool
  req_querystring :: string
  req_query :: jsobj
  req_header :: "(string \<times> string) list"
  req_body :: jsval

record response =
  res_status :: nat
  res_explicitStatus :: bool
  res_body :: jsval
  res_header :: "(string \<times> string) list"

record auth =
  Role :: "string option"
  jwt :: string

record ctx =
  request :: request
  response :: response
  auth :: auth
  params_id :: string

text \<open>
  A middleware or handler ends normally or by a throw; either way the context (and the
  database) is as the code left it.
\<close>

type_synonym 'a outcome = "exn option \<times> 'a"

text \<open>\<^verbatim>\<open>ctx.request.get(field)\<close>: the header, or the empty string when it is absent.\<close>

definition request_get :: "request \<Rightarrow> string \<Rightarrow> string" where
  "request_get req field =
     (case map_of (req_header req) (toLowerCase field) of None \<Rightarrow> [] | Some v \<Rightarrow> v)"

text \<open>
  Koa's response object. Assigning \<^verbatim>\<open>response.status\<close> marks the status as set
  explicitly and, for a status without content (204, 205, 304), clears a body that was
  set. Assigning \<^verbatim>\<open>response.body\<close> stores the value; null or undefined makes the status
  204 unless it is already one without content, and any other value makes the status 200
  unless a status was set explicitly. A new response has status 404, not set explicitly,
  and no body.
\<close>

definition empty_status :: "nat \<Rightarrow> bool" where
  "empty_status c = (c = 204 \<or> c = 205 \<or> c = 304)"

definition response_set_status :: "nat \<Rightarrow> response \<Rightarrow> response" where
  "response_set_status c r =
     r\<lparr>res_status := c, res_explicitStatus := True,
       res_body := (if truthy (res_body r) \<and> empty_status c then JNull else res_body r)\<rparr>"

definition response_set_body :: "jsval \<Rightarrow> response \<Rightarrow> response" where
  "response_set_body v r =
     (if v = JNull \<or> v = JUndefined then
        (if empty_status (res_status r) then r\<lparr>res_body := v\<rparr>
         else response_set_status 204 (r\<lparr>res_body := v\<rparr>))
      else if res_explicitStatus r then r\<lparr>res_body := v\<rparr>
      else r\<lparr>res_body := v, res_status := 200\<rparr>)"

definition response_set :: "string \<Rightarrow> string \<Rightarrow> response \<Rightarrow> response" where
  "response_set field v r = r\<lparr>res_header := AList.update field v (res_header r)\<rparr>"

definition new_response :: response where
  "new_response =
     \<lparr>res_status = 404, res_explicitStatus = False, res_body = JUndefined, res_header = []\<rparr>"

text \<open>
  \<^verbatim>\<open>o.k = v\<close> on a value held in a variable or property. An object or an array takes the
  property; undefined and null throw; in strict mode so does any other primitive.
  A function takes it too, and is carried here without its properties.
\<close>

fun assign_prop :: "string \<Rightarrow> jsval \<Rightarrow> jsval \<Rightarrow> exn + jsval" where
  "assign_prop k v (JObj ps) = Inr (JObj (assign k v ps))"
| "assign_prop k v (JArr xs ps) = Inr (JArr xs (assign k v ps))"
| "assign_prop k v (JFunction f) = Inr (JFunction f)"
| "assign_prop k v JUndefined = Inl (TypeError ''Cannot set properties of undefined'')"
| "assign_prop k v JNull = Inl (TypeError ''Cannot set properties of null'')"
| "assign_prop k v w = Inl (TypeError ''Cannot create property'')"

text \<open>\<^verbatim>\<open>row.k\<close> on a row object: undefined when it has no such property.\<close>

definition get_prop :: "jsobj \<Rightarrow> string \<Rightarrow> jsval" where
  "get_prop row k = (case map_of row k of None \<Rightarrow> JUndefined | Some v \<Rightarrow> v)"


section \<open>lib/ssl-middleware.js\<close>

text \<open>
  \<^verbatim>\<open>
  static force(options) {
      const defaults = { disabled: process.env.NODE_ENV != 'production', trustProxy: false };
      const opt = { ...defaults, ...options };
      return async function sslMiddleware(ctx, next) { ... };
  }
  \<close>
  An option the caller gives overrides the default.
\<close>

record ssl_options =
  disabled :: "bool option"
  trustProxy :: "bool option"

record ssl_opt =
  opt_disabled :: bool
  opt_trustProxy :: bool

definition force_opt :: "string option \<Rightarrow> ssl_options \<Rightarrow> ssl_opt" where
  "force_opt NODE_ENV options =
     \<lparr>opt_disabled = (case disabled options of
                        None \<Rightarrow> NODE_ENV \<noteq> Some ''production''
                      | Some b \<Rightarrow> b),
      opt_trustProxy = (case trustProxy options of None \<Rightarrow> False | Some b \<Rightarrow> b)\<rparr>"

text \<open>\<^verbatim>\<open>href.replace(/^http/, 'https')\<close>\<close>

definition replace_http :: "string \<Rightarrow> string" where
  "replace_http href = (if prefix ''http'' href then ''https'' @ drop 4 href else href)"

text \<open>
  \<^verbatim>\<open>
  async function sslMiddleware(ctx, next) {
      if (opt.disabled) { await next(); return; }
      const xfp = ctx.request.get('x-forwarded-proto');
      const isSecure = ctx.request.secure || (opt.trustProxy && xfp=='https');
      if (isSecure) { await next(); return; }
      if (ctx.request.method=='GET' || ctx.request.method=='HEAD') {
          ctx.response.status = 301;
          ctx.response.redirect(ctx.request.href.replace(/^http/, 'https'));
          return;
      }
      ctx.response.status = 403;
  }
  \<close>
  \<open>next\<close> is the rest of the middleware chain. \<open>redirect\<close> is the framework's
  \<^verbatim>\<open>response.redirect\<close>, a parameter here.
\<close>

definition sslMiddleware ::
  "(string \<Rightarrow> response \<Rightarrow> response) \<Rightarrow> ssl_opt \<Rightarrow> ctx \<Rightarrow> (ctx \<Rightarrow> ctx outcome) \<Rightarrow> ctx outcome" where
  "sslMiddleware redirect opt c next =
     (if opt_disabled opt then next c
      else
        let xfp = request_get (request c) ''x-forwarded-proto'';
            isSecure = (req_secure (request c) \<or> (opt_trustProxy opt \<and> xfp = ''https''))
        in
          if isSecure then next c
          else if req_method (request c) = ''GET'' \<or> req_method (request c) = ''HEAD'' then
            (None, c\<lparr>response :=
               redirect (replace_http (req_href (request c)))
                 (response_set_status 301 (response c))\<rparr>)
          else (None, c\<lparr>response := response_set_status 403 (response c)\<rparr>))"

definition force ::
  "(string \<Rightarrow> response \<Rightarrow> response) \<Rightarrow> string option \<Rightarrow> ssl_options \<Rightarrow>
   ctx \<Rightarrow> (ctx \<Rightarrow> ctx outcome) \<Rightarrow> ctx outcome" where
  "force redirect NODE_ENV options = sslMiddleware redirect (force_opt NODE_ENV options)"


section \<open>app-admin/handlers/ajax.js\<close>

text \<open>\<^verbatim>\<open>s.replace(pattern, replacement)\<close> with a string pattern: the first occurrence.\<close>

fun replace_first :: "string \<Rightarrow> string \<Rightarrow> string \<Rightarrow> string" where
  "replace_first pat rep [] = (if pat = [] then rep else [])"
| "replace_first pat rep (c # cs) =
     (if prefix pat (c # cs) then rep @ drop (length pat) (c # cs)
      else c # replace_first pat rep cs)"

text \<open>
  What \<^verbatim>\<open>fetch\<close> is called with, and what it resolves to: the upstream status, the
  content-type header (\<^verbatim>\<open>headers.get\<close> gives null when there is none), and what reading
  the body as JSON and as text gives, each of which may fail.
\<close>

record fetch_init =
  fi_method :: string
  fi_body :: jsval
  fi_headers :: "(string \<times> string) list"

record fetch_response =
  fr_status :: nat
  fr_content_type :: "string option"
  fr_json :: "exn + jsval"
  fr_text :: "exn + string"

text \<open>
  The \<^verbatim>\<open>catch\<close> block:
  \<^verbatim>\<open>ctx.response.status = 500; ctx.response.body = e.message;\<close>
\<close>

definition ajax_catch :: "exn \<Rightarrow> ctx \<Rightarrow> ctx outcome" where
  "ajax_catch e c =
     (None, c\<lparr>response :=
        response_set_body (JStr (message e)) (response_set_status 500 (response c))\<rparr>)"

text \<open>
  \<^verbatim>\<open>
  static async ajaxApiPassthrough(ctx) {
      const resource = ctx.request.url.replace('/ajax/', '');
      const host = ctx.request.host.replace('admin', 'api');
      const url = ctx.request.protocol + '://' + host + '/' + resource;
      const body = JSON.stringify(ctx.request.body) == '{}' ? null : JSON.stringify(ctx.request.body);
      const hdrs = {
          'Content-Type':  'application/json',
          'Accept':        ctx.request.header.accept || '*/*',
          'Authorization': 'Bearer ' + ctx.state.auth.jwt,
      };
      try {
          const response = await fetch(url, { method: ctx.request.method, body: body, headers: hdrs });
          const json = response.headers.get('content-type').match(/application\/json/);
          ctx.response.status = response.status;
          ctx.response.body = json ? await response.json() : await response.text();
      } catch (e) { // eg offline, DNS fail, etc
          ctx.response.status = 500;
          ctx.response.body = e.message;
      }
  }
  \<close>
  \<open>fetch\<close> is the network and the upstream server; \<open>stringify\<close> is
  \<^verbatim>\<open>JSON.stringify\<close> on what the body parser produced, which gives a string or
  undefined. Calling \<^verbatim>\<open>match\<close> on the null of a missing content-type header is a type
  error, thrown inside the \<^verbatim>\<open>try\<close> block.
\<close>

definition passthrough_url :: "ctx \<Rightarrow> string" where
  "passthrough_url c =
     (let resource = replace_first ''/ajax/'' [] (req_url (request c));
          host = replace_first ''admin'' ''api'' (req_host (request c))
      in req_protocol (request c) @ ''://'' @ host @ ''/'' @ resource)"

definition passthrough_init :: "(jsval \<Rightarrow> jsval) \<Rightarrow> ctx \<Rightarrow> fetch_init" where
  "passthrough_init stringify c =
     (let body = (if stringify (req_body (request c)) = JStr ''{}'' then JNull
                  else stringify (req_body (request c)));
          hdrs = [(''Content-Type'', ''application/json''),
                  (''Accept'', (case map_of (req_header (request c)) ''accept'' of
                                  None \<Rightarrow> ''*/*''
                                | Some a \<Rightarrow> if a = [] then ''*/*'' else a)),
                  (''Authorization'', ''Bearer '' @ jwt (auth c))]
      in \<lparr>fi_method = req_method (request c), fi_body = body, fi_headers = hdrs\<rparr>)"

definition ajaxApiPassthrough ::
  "(jsval \<Rightarrow> jsval) \<Rightarrow> (string \<Rightarrow> fetch_init \<Rightarrow> exn + fetch_response) \<Rightarrow> ctx \<Rightarrow> ctx outcome" where
  "ajaxApiPassthrough stringify fetch c =
     (case fetch (passthrough_url c) (passthrough_init stringify c) of
        Inl e \<Rightarrow> ajax_catch e c
      | Inr upstream \<Rightarrow>
          (case fr_content_type upstream of
             None \<Rightarrow> ajax_catch (TypeError ''Cannot read properties of null (reading 'match')'') c
           | Some content_type \<Rightarrow>
               let json = (search [Lit ''application/json''] content_type \<noteq> None);
                   c1 = c\<lparr>response := response_set_status (fr_status upstream) (response c)\<rparr>
               in
                 if json then
                   (case fr_json upstream of
                      Inl e \<Rightarrow> ajax_catch e c1
                    | Inr v \<Rightarrow> (None, c1\<lparr>response := response_set_body v (response c1)\<rparr>))
                 else
                   (case fr_text upstream of
                      Inl e \<Rightarrow> ajax_catch e c1
                    | Inr t \<Rightarrow>
                        (None, c1\<lparr>response := response_set_body (JStr t) (response c1)\<rparr>))))"


section \<open>lib/mysqldb.js: query\<close>

text \<open>
  The driver's answer to a statement is an array of rows and an array of field
  descriptions; a field description is carried as the field's name and whether the
  schema tags it boolean. The driver is a parameter: given the configuration its pool
  was created with, a statement and the values for its placeholders, it answers or
  throws, and may change the database. The module holds the pool in
  \<^verbatim>\<open>connectionPool\<close>, null until the first use.
\<close>

type_synonym field = "string \<times> bool"

type_synonym result = "jsobj list \<times> field list"

record 'db mysql =
  connectionPool :: "jsobj option"
  database :: 'db

type_synonym 'db driver = "jsobj \<Rightarrow> string \<Rightarrow> jsval \<Rightarrow> 'db \<Rightarrow> (exn + result) \<times> 'db"

text \<open>
  \<^verbatim>\<open>
  async function setupConnectionPool() {
      const dbConfig = MysqlDb.connectionParams();
      dbConfig.namedPlaceholders = true;
      dbConfig.dateStrings = true;
      connectionPool = mysql.createPool(dbConfig);
      await connectionPool.query('SET SESSION sql_mode = "TRADITIONAL"');
      ...
  }
  \<close>
  (The heartbeat is switched off by a constant, and the timing and debug output are
  left out.)
\<close>

definition setupConnectionPool ::
  "(string \<Rightarrow> string) \<Rightarrow> 'db driver \<Rightarrow> string option \<Rightarrow> 'db mysql \<Rightarrow> 'db mysql outcome" where
  "setupConnectionPool lower driver env s =
     (case connectionParams lower env of
        Inl e \<Rightarrow> (Some e, s)
      | Inr dbConfig \<Rightarrow>
          let dbConfig1 = assign ''namedPlaceholders'' (JBool True) dbConfig;
              dbConfig2 = assign ''dateStrings'' (JBool True) dbConfig1;
              s1 = s\<lparr>connectionPool := Some dbConfig2\<rparr>
          in
            case driver dbConfig2 ''SET SESSION sql_mode = \"TRADITIONAL\"'' JUndefined
                   (database s1) of
              (Inl e, db) \<Rightarrow> (Some e, s1\<lparr>database := db\<rparr>)
            | (Inr r, db) \<Rightarrow> (None, s1\<lparr>database := db\<rparr>))"

text \<open>
  \<^verbatim>\<open>
  static async query(sql, values, connection=undefined) {
      if (!connectionPool) await setupConnectionPool();
      const [ rows, fields ] = connection
          ? await connection.query(sql, values)      // using supplied connection
          : await connectionPool.query(sql, values); // using connection from pool
      return [ rows, fields ];
  }
  \<close>
  The handlers never supply a connection, so the statement goes to the pool.
  \<open>lower\<close> is the engine's lower-casing, which \<^verbatim>\<open>connectionParams\<close> applies.
\<close>

definition Db_query ::
  "(string \<Rightarrow> string) \<Rightarrow> 'db driver \<Rightarrow> string option \<Rightarrow> string \<Rightarrow> jsval \<Rightarrow> 'db mysql \<Rightarrow>
   (exn + result) \<times> 'db mysql" where
  "Db_query lower driver env sql values s =
     (case (if connectionPool s = None then setupConnectionPool lower driver env s
            else (None, s)) of
        (Some e, s1) \<Rightarrow> (Inl e, s1)
      | (None, s1) \<Rightarrow>
          (case connectionPool s1 of
             None \<Rightarrow> (Inl (TypeError ''Cannot read properties of null (reading 'query')''), s1)
           | Some dbConfig \<Rightarrow>
               (case driver dbConfig sql values (database s1) of
                  (r, db) \<Rightarrow> (r, s1\<lparr>database := db\<rparr>))))"


section \<open>app-api/members.js\<close>

text \<open>
  Modelled from the spec: \<^verbatim>\<open>castBoolean.fromMysql\<close> of \<^verbatim>\<open>app-api/cast-boolean.js\<close>,
  which is not among the sources. The specification has it produce, from a row set and
  the boolean-tagged field names, an equivalent row set in which those fields hold what
  the string-to-boolean cast gives and every other field is unmodified, without ever
  throwing.
\<close>

definition cast_row :: "field list \<Rightarrow> jsobj \<Rightarrow> jsobj" where
  "cast_row fs row =
     map (\<lambda>(k, v). (k, if (k, True) \<in> set fs then trueFalseToBool v else v)) row"

definition castBoolean_fromMysql :: "result \<Rightarrow> result" where
  "castBoolean_fromMysql r = (map (cast_row (snd r)) (fst r), snd r)"

text \<open>
  The data-access layer \<^verbatim>\<open>models/member.js\<close> and \<^verbatim>\<open>castBoolean.fromStrings\<close> are not
  among the sources either. The handlers take them as parameters: each is an
  asynchronous call that returns a value or throws, and may change the database.
\<close>

record 'db models =
  Member_get :: "jsval \<Rightarrow> 'db mysql \<Rightarrow> (exn + jsval) \<times> 'db mysql"
  Member_insert :: "jsval \<Rightarrow> 'db mysql \<Rightarrow> (exn + jsval) \<times> 'db mysql"
  Member_update :: "jsval \<Rightarrow> jsval \<Rightarrow> 'db mysql \<Rightarrow> (exn + jsval) \<times> 'db mysql"
  Member_delete :: "jsval \<Rightarrow> 'db mysql \<Rightarrow> (exn + jsval) \<times> 'db mysql"
  castBoolean_fromStrings :: "string \<Rightarrow> jsval \<Rightarrow> 'db mysql \<Rightarrow> (exn + jsval) \<times> 'db mysql"

text \<open>\<^verbatim>\<open>xs.join(sep)\<close>\<close>

fun join :: "string \<Rightarrow> string list \<Rightarrow> string" where
  "join sep [] = []"
| "join sep [x] = x"
| "join sep (x # y # ys) = x @ sep @ join sep (y # ys)"

text \<open>
  \<^verbatim>\<open>
  let sql = 'Select * From Member';
  if (ctx.request.querystring) {
      const filter = Object.keys(ctx.request.query).map(function(q) { return q+' = :'+q; }).join(' and ');
      sql += ' Where '+filter;
  }
  sql +=  ' Order By Firstname, Lastname';
  \<close>
\<close>

definition getMembers_sql :: "request \<Rightarrow> string" where
  "getMembers_sql req =
     ''Select * From Member''
     @ (if req_querystring req \<noteq> [] then
          '' Where '' @ join '' and '' (map (\<lambda>q. q @ '' = :'' @ q) (map fst (req_query req)))
        else [])
     @ '' Order By Firstname, Lastname''"

text \<open>
  \<^verbatim>\<open>
  } catch (e) {
      switch (e.code) {
          case 'ER_BAD_FIELD_ERROR': ctx.throw(403, 'Unrecognised Member field'); break;
          default: throw e;
      }
  }
  \<close>
\<close>

definition getMembers_catch :: "exn \<Rightarrow> exn" where
  "getMembers_catch e =
     (if code e = Some ''ER_BAD_FIELD_ERROR'' then HttpError 403 ''Unrecognised Member field''
      else e)"

text \<open>
  \<^verbatim>\<open>
  static async getMembers(ctx) {
      try {
          ... sql ...
          const result = await Db.query(sql, ctx.request.query);
          const [ members ] = castBoolean.fromMysql(result);
          if (members.length == 0) { ctx.response.status = 204; return; }
          for (let m=0; m<members.length; m++) {
              members[m] = { _id: members[m].MemberId, _uri: '/members/'+members[m].MemberId };
          }
          ctx.response.body = members;
          ctx.response.body.root = 'Members';
      } catch (e) { ... }
  }
  \<close>
  \<open>toStr\<close> is the language's conversion of a value to a string, which \<^verbatim>\<open>+\<close> applies
  to the member's id.
\<close>

definition member_summary :: "(jsval \<Rightarrow> string) \<Rightarrow> jsobj \<Rightarrow> jsval" where
  "member_summary toStr m =
     JObj [(''_id'', get_prop m ''MemberId''),
           (''_uri'', JStr (''/members/'' @ toStr (get_prop m ''MemberId'')))]"

definition getMembers ::
  "(jsval \<Rightarrow> string) \<Rightarrow> (string \<Rightarrow> string) \<Rightarrow> 'db driver \<Rightarrow> string option \<Rightarrow> ctx \<Rightarrow>
   'db mysql \<Rightarrow> (ctx \<times> 'db mysql) outcome" where
  "getMembers toStr lower driver env c s =
     (case Db_query lower driver env (getMembers_sql (request c))
             (JObj (req_query (request c))) s of
        (Inl e, s1) \<Rightarrow> (Some (getMembers_catch e), c, s1)
      | (Inr result, s1) \<Rightarrow>
          let members = fst (castBoolean_fromMysql result) in
            if length members = 0 then
              (None, c\<lparr>response := response_set_status 204 (response c)\<rparr>, s1)
            else
              let members1 = map (member_summary toStr) members;
                  r1 = response_set_body (JArr members1 []) (response c)
              in
                case assign_prop ''root'' (JStr ''Members'') (res_body r1) of
                  Inl e \<Rightarrow> (Some (getMembers_catch e), c\<lparr>response := r1\<rparr>, s1)
                | Inr b \<Rightarrow> (None, c\<lparr>response := r1\<lparr>res_body := b\<rparr>\<rparr>, s1))"

text \<open>
  \<^verbatim>\<open>
  static async getMemberById(ctx) {
      const result = await Db.query('Select * From Member Where MemberId = :id', { id: ctx.params.id });
      const [ members ] = castBoolean.fromMysql(result);
      const member = members[0];
      if (!member) ctx.throw(404, `No member ${ctx.params.id} found`);
      member._id = member.MemberId;
      const sql = 'Select TeamId As _id, concat("/teams/",TeamId) As _uri From TeamMember Where MemberId = :id';
      const [ teams ] = await Db.query(sql, { id: ctx.params.id });
      member.Teams = teams;
      ctx.response.body = member;
      ctx.response.body.root = 'Member';
  }
  \<close>
\<close>

definition getMemberById ::
  "(string \<Rightarrow> string) \<Rightarrow> 'db driver \<Rightarrow> string option \<Rightarrow> ctx \<Rightarrow> 'db mysql \<Rightarrow>
   (ctx \<times> 'db mysql) outcome" where
  "getMemberById lower driver env c s =
     (case Db_query lower driver env ''Select * From Member Where MemberId = :id''
             (JObj [(''id'', JStr (params_id c))]) s of
        (Inl e, s1) \<Rightarrow> (Some e, c, s1)
      | (Inr result, s1) \<Rightarrow>
          (case fst (castBoolean_fromMysql result) of
             [] \<Rightarrow> (Some (HttpError 404 (''No member '' @ params_id c @ '' found'')), c, s1)
           | member # others \<Rightarrow>
               let member1 = assign ''_id'' (get_prop member ''MemberId'') member in
                 case Db_query lower driver env
                        ''Select TeamId As _id, concat(\"/teams/\",TeamId) As _uri From TeamMember Where MemberId = :id''
                        (JObj [(''id'', JStr (params_id c))]) s1 of
                   (Inl e, s2) \<Rightarrow> (Some e, c, s2)
                 | (Inr teams, s2) \<Rightarrow>
                     let member2 = assign ''Teams'' (JArr (map JObj (fst teams)) []) member1;
                         r1 = response_set_body (JObj member2) (response c)
                     in
                       case assign_prop ''root'' (JStr ''Member'') (res_body r1) of
                         Inl e \<Rightarrow> (Some e, c\<lparr>response := r1\<rparr>, s2)
                       | Inr b \<Rightarrow> (None, c\<lparr>response := r1\<lparr>res_body := b\<rparr>\<rparr>, s2)))"

text \<open>
  \<^verbatim>\<open>
  static async postMembers(ctx) {
      if (ctx.state.auth.Role != 'admin') ctx.throw(403, 'Admin auth required');
      ctx.request.body = await castBoolean.fromStrings('Member', ctx.request.body);
      const id = await Member.insert(ctx.request.body);
      ctx.response.body = await Member.get(id);
      ctx.response.body.root = 'Member';
      ctx.response.set('Location', '/members/'+id);
      ctx.response.status = 201;
  }
  \<close>
\<close>

definition postMembers ::
  "(jsval \<Rightarrow> string) \<Rightarrow> 'db models \<Rightarrow> ctx \<Rightarrow> 'db mysql \<Rightarrow> (ctx \<times> 'db mysql) outcome" where
  "postMembers toStr M c s =
     (if Role (auth c) \<noteq> Some ''admin'' then (Some (HttpError 403 ''Admin auth required''), c, s)
      else
        case castBoolean_fromStrings M ''Member'' (req_body (request c)) s of
          (Inl e, s1) \<Rightarrow> (Some e, c, s1)
        | (Inr body, s1) \<Rightarrow>
            let c1 = c\<lparr>request := (request c)\<lparr>req_body := body\<rparr>\<rparr> in
              case Member_insert M body s1 of
                (Inl e, s2) \<Rightarrow> (Some e, c1, s2)
              | (Inr new_id, s2) \<Rightarrow>
                  (case Member_get M new_id s2 of
                     (Inl e, s3) \<Rightarrow> (Some e, c1, s3)
                   | (Inr member, s3) \<Rightarrow>
                       let r1 = response_set_body member (response c1) in
                         case assign_prop ''root'' (JStr ''Member'') (res_body r1) of
                           Inl e \<Rightarrow> (Some e, c1\<lparr>response := r1\<rparr>, s3)
                         | Inr b \<Rightarrow>
                             let r2 = r1\<lparr>res_body := b\<rparr>;
                                 r3 = response_set ''Location'' (''/members/'' @ toStr new_id) r2;
                                 r4 = response_set_status 201 r3
                             in (None, c1\<lparr>response := r4\<rparr>, s3)))"

text \<open>
  \<^verbatim>\<open>
  static async patchMemberById(ctx) {
      if (ctx.state.auth.Role != 'admin') ctx.throw(403, 'Admin auth required');
      ctx.request.body = await castBoolean.fromStrings('Member', ctx.request.body);
      await Member.update(ctx.params.id, ctx.request.body);
      ctx.response.body = await Member.get(ctx.params.id);
      if (!ctx.response.body) ctx.throw(404, `No member ${ctx.params.id} found`);
      ctx.response.body.root = 'Member';
  }
  \<close>
\<close>

definition patchMemberById ::
  "'db models \<Rightarrow> ctx \<Rightarrow> 'db mysql \<Rightarrow> (ctx \<times> 'db mysql) outcome" where
  "patchMemberById M c s =
     (if Role (auth c) \<noteq> Some ''admin'' then (Some (HttpError 403 ''Admin auth required''), c, s)
      else
        case castBoolean_fromStrings M ''Member'' (req_body (request c)) s of
          (Inl e, s1) \<Rightarrow> (Some e, c, s1)
        | (Inr body, s1) \<Rightarrow>
            let c1 = c\<lparr>request := (request c)\<lparr>req_body := body\<rparr>\<rparr> in
              case Member_update M (JStr (params_id c1)) body s1 of
                (Inl e, s2) \<Rightarrow> (Some e, c1, s2)
              | (Inr u, s2) \<Rightarrow>
                  (case Member_get M (JStr (params_id c1)) s2 of
                     (Inl e, s3) \<Rightarrow> (Some e, c1, s3)
                   | (Inr member, s3) \<Rightarrow>
                       let r1 = response_set_body member (response c1) in
                         if \<not> truthy (res_body r1) then
                           (Some (HttpError 404 (''No member '' @ params_id c1 @ '' found'')),
                            c1\<lparr>response := r1\<rparr>, s3)
                         else
                           case assign_prop ''root'' (JStr ''Member'') (res_body r1) of
                             Inl e \<Rightarrow> (Some e, c1\<lparr>response := r1\<rparr>, s3)
                           | Inr b \<Rightarrow> (None, c1\<lparr>response := r1\<lparr>res_body := b\<rparr>\<rparr>, s3)))"

text \<open>
  \<^verbatim>\<open>
  static async deleteMemberById(ctx) {
      if (ctx.state.auth.Role != 'admin') ctx.throw(403, 'Admin auth required');
      const member = await Member.get(ctx.params.id);
      if (!member) ctx.throw(404, `No member ${ctx.params.id} found`);
      await Member.delete(ctx.params.id);
      ctx.response.body = member;
      ctx.response.body.root = 'Member';
  }
  \<close>
\<close>

definition deleteMemberById ::
  "'db models \<Rightarrow> ctx \<Rightarrow> 'db mysql \<Rightarrow> (ctx \<times> 'db mysql) outcome" where
  "deleteMemberById M c s =
     (if Role (auth c) \<noteq> Some ''admin'' then (Some (HttpError 403 ''Admin auth required''), c, s)
      else
        case Member_get M (JStr (params_id c)) s of
          (Inl e, s1) \<Rightarrow> (Some e, c, s1)
        | (Inr member, s1) \<Rightarrow>
            if \<not> truthy member then
              (Some (HttpError 404 (''No member '' @ params_id c @ '' found'')), c, s1)
            else
              case Member_delete M (JStr (params_id c)) s1 of
                (Inl e, s2) \<Rightarrow> (Some e, c, s2)
              | (Inr d, s2) \<Rightarrow>
                  let r1 = response_set_body member (response c) in
                    case assign_prop ''root'' (JStr ''Member'') (res_body r1) of
                      Inl e \<Rightarrow> (Some e, c\<lparr>response := r1\<rparr>, s2)
                    | Inr b \<Rightarrow> (None, c\<lparr>response := r1\<lparr>res_body := b\<rparr>\<rparr>, s2))"


section \<open>The store's answer to the list statement\<close>


















section \<open>The Member table and its data-access layer\<close>

text \<open>
  Modelled from the spec: the relational store's Member table and the operations
  \<^verbatim>\<open>get\<close> and \<^verbatim>\<open>delete\<close> of \<^verbatim>\<open>models/member.js\<close>, none of which is among the sources.
  The specification has a member row identified by a unique id that the store enforces;
  \<^verbatim>\<open>get(id)\<close> gives the single row or signals absence without an error, and
  \<^verbatim>\<open>delete(id)\<close> removes the row or does nothing. The table maps an id, as it is written
  in a path, to its row. The store answers the select by id of \<^verbatim>\<open>getMemberById\<close> with
  the row of that id, if there is one, and in this model has nothing to answer to any
  other statement.
\<close>

type_synonym member_table = "(string \<times> jsobj) list"

definition table_get :: "jsval \<Rightarrow> member_table mysql \<Rightarrow> (exn + jsval) \<times> member_table mysql" where
  "table_get i s =
     (Inr (case i of
             JStr k \<Rightarrow> (case map_of (database s) k of None \<Rightarrow> JUndefined | Some row \<Rightarrow> JObj row)
           | _ \<Rightarrow> JUndefined),
      s)"

definition table_delete :: "jsval \<Rightarrow> member_table mysql \<Rightarrow> (exn + jsval) \<times> member_table mysql" where
  "table_delete i s =
     (Inr JUndefined,
      (case i of
         JStr k \<Rightarrow> s\<lparr>database := AList.delete k (database s)\<rparr>
       | _ \<Rightarrow> s))"

definition table_driver :: "member_table driver" where
  "table_driver cfg sql vals db =
     (if sql = ''Select * From Member Where MemberId = :id'' then
        (case vals of
           JObj [(k, JStr i)] \<Rightarrow>
             (if k = ''id'' then
                (Inr ((case map_of db i of None \<Rightarrow> [] | Some row \<Rightarrow> [row]), []), db)
              else (Inr ([], []), db))
         | _ \<Rightarrow> (Inr ([], []), db))
      else (Inr ([], []), db))"


section \<open>Properties of the boolean adapters\<close>

lemma of_char_toLowerCase_char:
  "(of_char (toLowerCase_char c) :: nat) =
     (if 65 \<le> (of_char c :: nat) \<and> (of_char c :: nat) \<le> 90 then of_char c + 32 else of_char c)"
  by (simp add: toLowerCase_char_def Let_def)

lemma char_eq_iff_code: "(c = d) = ((of_char c :: nat) = of_char d)"
  by (metis of_char_eq_iff)

lemma same_letter_iff: "same_letter c d = (toLowerCase_char c = toLowerCase_char d)"
  unfolding same_letter_def char_eq_iff_code[of "toLowerCase_char c"]
    of_char_toLowerCase_char char_eq_iff_code[of c d]
  by auto

lemma equal_ignoring_case_iff: "equal_ignoring_case s t = (toLowerCase s = toLowerCase t)"
  unfolding equal_ignoring_case_def toLowerCase_def
proof (induction s arbitrary: t)
  case Nil
  show ?case by auto
next
  case (Cons c s)
  show ?case
  proof (cases t)
    case Nil
    then show ?thesis by simp
  next
    case (Cons d t')
    then show ?thesis using Cons.IH [of t'] by (simp add: same_letter_iff)
  qed
qed

lemma toLowerCase_true: "toLowerCase ''true'' = ''true''"
  by code_simp

lemma toLowerCase_false: "toLowerCase ''false'' = ''false''"
  by code_simp

text \<open>
  C5. \<^verbatim>\<open>trueFalseToBool\<close> is a total function of every value (it has no failing
  branch): on a string that equals \<^verbatim>\<open>'true'\<close> ignoring case (such as \<^verbatim>\<open>'TRUE'\<close> or
  \<^verbatim>\<open>'tRuE'\<close>) it returns true, on a string that equals \<^verbatim>\<open>'false'\<close> ignoring case it
  returns false, and on every other value, string or not, it returns undefined.
\<close>

theorem trueFalseToBool_spec:
  "trueFalseToBool v =
     (case v of
        JStr s \<Rightarrow>
          (if equal_ignoring_case s ''true'' then JBool True
           else if equal_ignoring_case s ''false'' then JBool False
           else JUndefined)
      | _ \<Rightarrow> JUndefined)
   \<and> trueFalseToBool (JStr ''TRUE'') = JBool True
   \<and> trueFalseToBool (JStr ''tRuE'') = JBool True
   \<and> trueFalseToBool (JStr ''False'') = JBool False
   \<and> trueFalseToBool (JStr ''yes'') = JUndefined
   \<and> trueFalseToBool (JBool True) = JUndefined
   \<and> trueFalseToBool (JNum (Finite 1)) = JUndefined"
proof -
  have general: "trueFalseToBool v =
     (case v of
        JStr s \<Rightarrow>
          (if equal_ignoring_case s ''true'' then JBool True
           else if equal_ignoring_case s ''false'' then JBool False
           else JUndefined)
      | _ \<Rightarrow> JUndefined)"
    by (cases v)
      (simp_all add: equal_ignoring_case_iff toLowerCase_true toLowerCase_false)
  have "trueFalseToBool (JStr ''TRUE'') = JBool True"
    and "trueFalseToBool (JStr ''tRuE'') = JBool True"
    and "trueFalseToBool (JStr ''False'') = JBool False"
    and "trueFalseToBool (JStr ''yes'') = JUndefined"
    by code_simp+
  with general show ?thesis by simp
qed

text \<open>
  C6. Round trip: for every native boolean \<open>b\<close>, converting it to its string form with
  \<^verbatim>\<open>boolToTrueFalse\<close> and back with \<^verbatim>\<open>trueFalseToBool\<close> gives \<open>b\<close> again.
\<close>

theorem bool_round_trip: "trueFalseToBool (boolToTrueFalse (JBool b)) = JBool b"
  by (cases b) (simp_all add: boolToTrueFalse_def toLowerCase_true toLowerCase_false)

text \<open>
  C10. \<^verbatim>\<open>boolToTrueFalse\<close> returns undefined exactly when its argument is null or
  undefined; on every other value it returns \<^verbatim>\<open>'true'\<close> when the value is truthy and
  \<^verbatim>\<open>'false'\<close> when it is falsy. So zero, not-a-number and the empty string give
  \<^verbatim>\<open>'false'\<close>, and every non-empty string, \<^verbatim>\<open>'false'\<close> among them, gives \<^verbatim>\<open>'true'\<close>.
\<close>

theorem boolToTrueFalse_spec:
  "(boolToTrueFalse v = JUndefined) = (v = JUndefined \<or> v = JNull)
   \<and> boolToTrueFalse v =
       (if v = JUndefined \<or> v = JNull then JUndefined
        else if truthy v then JStr ''true'' else JStr ''false'')
   \<and> boolToTrueFalse (JNum (Finite 0)) = JStr ''false''
   \<and> boolToTrueFalse (JNum NaN) = JStr ''false''
   \<and> boolToTrueFalse (JStr '''') = JStr ''false''
   \<and> boolToTrueFalse (JStr (c # s)) = JStr ''true''
   \<and> boolToTrueFalse (JStr ''false'') = JStr ''true''
   \<and> boolToTrueFalse (JNum (Finite 2)) = JStr ''true''
   \<and> boolToTrueFalse (JObj []) = JStr ''true''"
  by (simp add: boolToTrueFalse_def)


section \<open>Properties of connectionParams\<close>

lemma try_lengths_longest:
  "0 < k \<Longrightarrow> k \<le> n \<Longrightarrow> match_items r (drop k s) = Some gs \<Longrightarrow>
   (\<And>j. k < j \<Longrightarrow> j \<le> n \<Longrightarrow> match_items r (drop j s) = None) \<Longrightarrow>
   try_lengths r s n = Some (take k s # gs)"
proof (induction n)
  case 0
  then show ?case by simp
next
  case (Suc n)
  show ?case
  proof (cases "k = Suc n")
    case True
    with Suc.prems show ?thesis by simp
  next
    case False
    with Suc.prems have le: "k \<le> n" by simp
    from False Suc.prems have none: "match_items r (drop (Suc n) s) = None" by simp
    have "try_lengths r s n = Some (take k s # gs)"
      using Suc.IH [OF Suc.prems(1) le Suc.prems(3)] Suc.prems(4) by simp
    with none show ?thesis by simp
  qed
qed

lemma lit_mismatch: "c \<notin> set t \<Longrightarrow> match_items (Lit [c] # r) (drop i t) = None"
proof -
  assume c: "c \<notin> set t"
  have "\<not> prefix [c] (drop i t)"
  proof
    assume "prefix [c] (drop i t)"
    then have "c \<in> set (drop i t)" by (auto simp: prefix_def)
    then have "c \<in> set t" by (rule in_set_dropD)
    with c show False by simp
  qed
  then show ?thesis by simp
qed

lemma dot_run_append:
  "dot_run u = length u \<Longrightarrow> c \<noteq> CHR 0x80 \<Longrightarrow> c \<noteq> CHR 0xA8 \<Longrightarrow> c \<noteq> CHR 0xA9 \<Longrightarrow>
   length u \<le> dot_run (u @ c # t)"
proof (induction u)
  case Nil
  show ?case by simp
next
  case (Cons a u)
  from Cons.prems(1) have here: "\<not> line_terminator_at (a # u)"
    by (auto split: if_splits)
  with Cons.prems(1) have rest: "dot_run u = length u" by simp
  have "\<not> line_terminator_at (a # u @ c # t)"
  proof (cases u)
    case Nil
    with here Cons.prems show ?thesis by (auto simp: line_terminator_at_def)
  next
    case (Cons b u')
    note outer = this
    show ?thesis
    proof (cases u')
      case Nil
      with here outer Cons.prems show ?thesis by (auto simp: line_terminator_at_def)
    next
      case (Cons b' u'')
      with here outer show ?thesis by (auto simp: line_terminator_at_def)
    qed
  qed
  with Cons.IH [OF rest Cons.prems(2-4)] show ?case by simp
qed

lemma dotplus_then_lit:
  assumes u: "u \<noteq> []" "dot_run u = length u"
    and ascii: "c \<noteq> CHR 0x80" "c \<noteq> CHR 0xA8" "c \<noteq> CHR 0xA9"
    and c: "c \<notin> set t"
    and r: "match_items r t = Some gs"
  shows "match_items (DotPlus # Lit [c] # r) (u @ c # t) = Some (u # gs)"
proof -
  let ?s = "u @ c # t"
  have run: "length u \<le> dot_run ?s"
    using u(2) ascii by (rule dot_run_append)
  have here: "match_items (Lit [c] # r) (drop (length u) ?s) = Some gs"
    using r by simp
  have later: "\<And>j. length u < j \<Longrightarrow> match_items (Lit [c] # r) (drop j ?s) = None"
  proof -
    fix j assume "length u < j"
    then obtain i where "j = length u + Suc i" using less_iff_Suc_add by auto
    then have "drop j ?s = drop i t" by simp
    then show "match_items (Lit [c] # r) (drop j ?s) = None"
      using lit_mismatch [OF c] by simp
  qed
  have "try_lengths (Lit [c] # r) ?s (dot_run ?s) = Some (take (length u) ?s # gs)"
    using u(1) run here later by (intro try_lengths_longest) auto
  then show ?thesis by simp
qed

lemma dotplus_last:
  assumes "d \<noteq> []" "dot_run d = length d"
  shows "match_items [DotPlus] d = Some [d]"
proof -
  obtain n where n: "length d = Suc n" using assms(1) by (cases d) auto
  have "try_lengths [] d (Suc n) = Some [take (Suc n) d]" by simp
  then have "try_lengths [] d (length d) = Some [d]" using n by simp
  then show ?thesis using assms(2) by simp
qed

lemma url_like_match:
  assumes "part_ok [] u" "part_ok '':'' p" "part_ok '':@'' h" "part_ok '':@/'' d"
  shows "search urlLike (''mysql://'' @ u @ '':'' @ p @ ''@'' @ h @ ''/'' @ d) = Some [u, p, h, d]"
proof -
  from assms have ne: "u \<noteq> []" "p \<noteq> []" "h \<noteq> []" "d \<noteq> []"
    and lt: "dot_run u = length u" "dot_run p = length p"
            "dot_run h = length h" "dot_run d = length d"
    unfolding part_ok_def by simp_all
  from assms have ex: "CHR '':'' \<notin> set p" "CHR '':'' \<notin> set h" "CHR ''@'' \<notin> set h"
            "CHR '':'' \<notin> set d" "CHR ''@'' \<notin> set d" "CHR ''/'' \<notin> set d"
    unfolding part_ok_def list_all_iff by simp_all blast+
  have m4: "match_items [DotPlus] d = Some [d]"
    using ne(4) lt(4) by (rule dotplus_last)
  have d3: "CHR ''/'' \<notin> set d" by (rule ex(6))
  have m3: "match_items (DotPlus # Lit ''/'' # [DotPlus]) (h @ CHR ''/'' # d) = Some [h, d]"
    using ne(3) lt(3) _ _ _ d3 m4 by (rule dotplus_then_lit) simp_all
  have d2: "CHR ''@'' \<notin> set (h @ CHR ''/'' # d)" using ex by simp
  have m2: "match_items (DotPlus # Lit ''@'' # [DotPlus, Lit ''/'', DotPlus])
        (p @ CHR ''@'' # h @ CHR ''/'' # d) = Some [p, h, d]"
    using ne(2) lt(2) _ _ _ d2 m3 by (rule dotplus_then_lit) simp_all
  have d1: "CHR '':'' \<notin> set (p @ CHR ''@'' # h @ CHR ''/'' # d)" using ex by simp
  have m1: "match_items (DotPlus # Lit '':'' # [DotPlus, Lit ''@'', DotPlus, Lit ''/'', DotPlus])
        (u @ CHR '':'' # p @ CHR ''@'' # h @ CHR ''/'' # d) = Some [u, p, h, d]"
    using ne(1) lt(1) _ _ _ d1 m2 by (rule dotplus_then_lit) simp_all
  then have "match_items urlLike (''mysql://'' @ u @ '':'' @ p @ ''@'' @ h @ ''/'' @ d) = Some [u, p, h, d]"
    by (simp add: urlLike_def del: match_items.simps(3))
  then show ?thesis by simp
qed

lemma split_not_Nil: "split sep s \<noteq> []"
  by (induction s) (auto split: list.splits)

lemma reduce_config_map_of:
  "\<forall>v \<in> set vs. v \<noteq> [] \<Longrightarrow>
   \<exists>cfg. reduce_config lower vs c = Inr cfg \<and>
     map_of cfg = map_of c ++
       map_of (rev (filter (\<lambda>kv. fst kv \<noteq> ''__proto__'')
                      (map (\<lambda>v. (lower (hd v), js_index v 1)) vs)))"
proof (induction vs arbitrary: c)
  case Nil
  show ?case by simp
next
  case (Cons v vs)
  then obtain k rest where v: "v = k # rest" by (cases v) auto
  let ?c = "assign (lower k) (js_index v 1) c"
  let ?F = "filter (\<lambda>kv. fst kv \<noteq> ''__proto__'') (map (\<lambda>v. (lower (hd v), js_index v 1)) vs)"
  from Cons.prems have "\<forall>v \<in> set vs. v \<noteq> []" by simp
  from Cons.IH [OF this, of ?c]
  obtain cfg where cfg: "reduce_config lower vs ?c = Inr cfg"
    and m: "map_of cfg = map_of ?c ++ map_of (rev ?F)"
    by blast
  have "map_of ?c ++ map_of (rev ?F) =
        map_of c ++ map_of (rev (filter (\<lambda>kv. fst kv \<noteq> ''__proto__'')
                      (map (\<lambda>v. (lower (hd v), js_index v 1)) (v # vs))))"
  proof (cases "lower k = ''__proto__''")
    case True
    then show ?thesis using v by (simp add: assign_def)
  next
    case False
    have "map_of ?c = map_of c ++ [lower k \<mapsto> js_index v 1]"
      using False by (simp add: assign_def update_conv')
    then show ?thesis using False v by (simp add: map_add_assoc del: map_add_upd)
  qed
  with cfg m v show ?case by simp
qed

lemma key_value_branch:
  "\<exists>cfg. reduce_config lower (map (\<lambda>v. split CHR ''='' (trim v)) (split CHR '';'' s)) [] = Inr cfg \<and>
         map_of cfg = map_of (rev (key_value_pairs lower s))"
proof -
  have "\<forall>v \<in> set (map (\<lambda>v. split CHR ''='' (trim v)) (split CHR '';'' s)). v \<noteq> []"
    by (simp add: split_not_Nil)
  from reduce_config_map_of [OF this, of lower "[]"]
  show ?thesis by (simp add: key_value_pairs_def comp_def)
qed

lemma connectionParams_throws_iff:
  "(\<exists>e. connectionParams lower env = Inl e) = (env = None \<or> env = Some [])"
proof (cases env)
  case None
  then show ?thesis by (simp add: connectionParams_def)
next
  case (Some s)
  show ?thesis
  proof (cases "s = []")
    case True
    with Some show ?thesis by (simp add: connectionParams_def)
  next
    case False
    obtain cfg where "reduce_config lower (map (\<lambda>v. split CHR ''='' (trim v)) (split CHR '';'' s)) [] = Inr cfg"
      using key_value_branch [of lower s] by blast
    with Some False show ?thesis
      by (simp add: connectionParams_def split: option.splits)
  qed
qed

text \<open>
  C9, as stated, fails on the code: the string \<^verbatim>\<open>garbage\<close> is of neither documented
  form, and \<^verbatim>\<open>connectionParams\<close> does not throw on it; it returns an object with the one
  property \<^verbatim>\<open>garbage\<close>, undefined.
\<close>

theorem connectionParams_malformed_returns:
  "\<not> well_formed ''garbage''
   \<and> connectionParams toLowerCase (Some ''garbage'') = Inr [(''garbage'', JUndefined)]"
  by code_simp

text \<open>
  C9, amended. \<^verbatim>\<open>connectionParams\<close> throws exactly when the connection string is absent
  or empty, and then an \<^verbatim>\<open>Error\<close> with the message \<^verbatim>\<open>No DB_MYSQL_CONNECTION available\<close>;
  on every other string, well-formed or not, it returns a configuration object.

  For a string \<^verbatim>\<open>mysql://u:p@h/d\<close> whose four parts are not empty and contain no line
  terminator, where \<open>p\<close> contains no colon, \<open>h\<close> no colon and no at-sign, and \<open>d\<close> no
  colon, no at-sign and no slash (\<open>u\<close> may contain all of them), the object has the
  properties user \<open>u\<close>, password \<open>p\<close>, host \<open>h\<close> and database \<open>d\<close>, in this order.

  For a string that is not empty and in which the expression has no match, the
  properties of the object are those of \<open>key_value_pairs\<close>: the string is split at the
  semicolons, and each piece is trimmed and split at the equals signs; the piece's
  property is named by the engine's lower-casing of its first part, and its value is its
  second part, that is the text between the first equals sign and the second one (or
  the end of the piece, when there is no second one), and undefined when the piece has
  no equals sign. A piece whose lower-cased name is \<^verbatim>\<open>__proto__\<close> gives no property, and
  of several pieces with one name the last one gives the value.
\<close>

theorem connectionParams_spec:
  "(\<exists>e. connectionParams lower env = Inl e) = (env = None \<or> env = Some [])
   \<and> (connectionParams lower env = Inl (Error ''No DB_MYSQL_CONNECTION available''))
       = (env = None \<or> env = Some [])
   \<and> (part_ok [] u \<and> part_ok '':'' p \<and> part_ok '':@'' h \<and> part_ok '':@/'' d \<longrightarrow>
        connectionParams lower (Some (''mysql://'' @ u @ '':'' @ p @ ''@'' @ h @ ''/'' @ d))
          = Inr [(''user'', JStr u), (''password'', JStr p), (''host'', JStr h),
                 (''database'', JStr d)])
   \<and> (s \<noteq> [] \<and> \<not> uri_form s \<longrightarrow>
        (\<exists>cfg. connectionParams lower (Some s) = Inr cfg
               \<and> map_of cfg = map_of (rev (key_value_pairs lower s))))"
proof -
  have throws: "(\<exists>e. connectionParams lower env = Inl e) = (env = None \<or> env = Some [])"
    by (rule connectionParams_throws_iff)
  have which: "(connectionParams lower env = Inl (Error ''No DB_MYSQL_CONNECTION available''))
       = (env = None \<or> env = Some [])"
  proof
    assume "connectionParams lower env = Inl (Error ''No DB_MYSQL_CONNECTION available'')"
    then have "\<exists>e. connectionParams lower env = Inl e" by blast
    with throws show "env = None \<or> env = Some []" by simp
  next
    assume "env = None \<or> env = Some []"
    then show "connectionParams lower env = Inl (Error ''No DB_MYSQL_CONNECTION available'')"
      by (auto simp: connectionParams_def)
  qed
  have uri: "connectionParams lower (Some (''mysql://'' @ u @ '':'' @ p @ ''@'' @ h @ ''/'' @ d))
          = Inr [(''user'', JStr u), (''password'', JStr p), (''host'', JStr h),
                 (''database'', JStr d)]"
    if ok: "part_ok [] u \<and> part_ok '':'' p \<and> part_ok '':@'' h \<and> part_ok '':@/'' d"
  proof -
    have "search urlLike (''mysql://'' @ u @ '':'' @ p @ ''@'' @ h @ ''/'' @ d) = Some [u, p, h, d]"
      using ok by (intro url_like_match) simp_all
    then show ?thesis
      unfolding connectionParams_def by (simp add: js_index_def)
  qed
  have kv: "\<exists>cfg. connectionParams lower (Some s) = Inr cfg
               \<and> map_of cfg = map_of (rev (key_value_pairs lower s))"
    if "s \<noteq> [] \<and> \<not> uri_form s"
    using that key_value_branch [of lower s] by (simp add: connectionParams_def uri_form_def)
  from throws which uri kv show ?thesis by blast
qed

theorem connectionParams_spec_witness:
  "part_ok [] ''my-un:x'' \<and> part_ok '':'' ''my-pw@y'' \<and> part_ok '':@'' ''my.host.com/z''
   \<and> part_ok '':@/'' ''my-db''
   \<and> (\<exists>e. connectionParams toLowerCase (Some ''mysql://my-un:x:my-pw@y@my.host.com/z/my-db'') = Inl e)
       = False
   \<and> connectionParams toLowerCase (Some ''mysql://my-un:x:my-pw@y@my.host.com/z/my-db'')
       = Inr [(''user'', JStr ''my-un:x''), (''password'', JStr ''my-pw@y''),
              (''host'', JStr ''my.host.com/z''), (''database'', JStr ''my-db'')]
   \<and> \<not> uri_form ''host=my.host.com; User=my-un; password=abc=def; database''
   \<and> (\<exists>cfg. connectionParams toLowerCase
                (Some ''host=my.host.com; User=my-un; password=abc=def; database'')
              = Inr cfg
            \<and> map_of cfg
              = map_of [(''database'', JUndefined), (''password'', JStr ''abc''),
                        (''user'', JStr ''my-un''), (''host'', JStr ''my.host.com'')])"
proof -
  let ?uri = "''mysql://my-un:x:my-pw@y@my.host.com/z/my-db''"
  let ?kv = "''host=my.host.com; User=my-un; password=abc=def; database''"
  have parts: "part_ok [] ''my-un:x'' \<and> part_ok '':'' ''my-pw@y'' \<and> part_ok '':@'' ''my.host.com/z''
      \<and> part_ok '':@/'' ''my-db''"
    by code_simp
  have form: "?kv \<noteq> [] \<and> \<not> uri_form ?kv"
    by code_simp
  have pairs: "rev (key_value_pairs toLowerCase ?kv)
      = [(''database'', JUndefined), (''password'', JStr ''abc''),
         (''user'', JStr ''my-un''), (''host'', JStr ''my.host.com'')]"
    by code_simp
  note all = connectionParams_spec [of toLowerCase "Some ?uri" "''my-un:x''" "''my-pw@y''"
      "''my.host.com/z''" "''my-db''" ?kv]
  have throws: "(\<exists>e. connectionParams toLowerCase (Some ?uri) = Inl e) = False"
    using all by simp
  have uri: "connectionParams toLowerCase (Some ?uri)
       = Inr [(''user'', JStr ''my-un:x''), (''password'', JStr ''my-pw@y''),
              (''host'', JStr ''my.host.com/z''), (''database'', JStr ''my-db'')]"
    using all parts by simp
  have kv: "\<exists>cfg. connectionParams toLowerCase (Some ?kv) = Inr cfg
            \<and> map_of cfg
              = map_of [(''database'', JUndefined), (''password'', JStr ''abc''),
                        (''user'', JStr ''my-un''), (''host'', JStr ''my.host.com'')]"
    using all form pairs by simp
  from parts throws uri form kv show ?thesis by blast
qed


section \<open>Properties of the SSL middleware and of the ajax passthrough\<close>

text \<open>
  C3. Every request through the middleware: when \<^verbatim>\<open>disabled\<close> is true it is passed on
  to the rest of the chain as it is; otherwise, when the request is secure, or
  \<^verbatim>\<open>trustProxy\<close> is true and the x-forwarded-proto header equals \<^verbatim>\<open>https\<close>, it is
  passed on as it is; otherwise a GET or HEAD request gets status 301 and a redirect to
  its own URL with the leading \<^verbatim>\<open>http\<close> replaced by \<^verbatim>\<open>https\<close>, and a request of any
  other method gets status 403. In the last two cases the rest of the chain does not run.
\<close>

theorem sslMiddleware_spec:
  "sslMiddleware redirect opt c next =
     (if opt_disabled opt then next c
      else if req_secure (request c)
              \<or> (opt_trustProxy opt \<and> request_get (request c) ''x-forwarded-proto'' = ''https'')
           then next c
      else if req_method (request c) \<in> {''GET'', ''HEAD''}
           then (None, c\<lparr>response :=
                   redirect (replace_http (req_href (request c)))
                     (response_set_status 301 (response c))\<rparr>)
      else (None, c\<lparr>response := response_set_status 403 (response c)\<rparr>))
   \<and> replace_http (''http'' @ rest) = ''https'' @ rest
   \<and> res_status (response_set_status 301 r) = 301
   \<and> res_status (response_set_status 403 r) = 403
   \<and> force redirect NODE_ENV \<lparr>disabled = Some d, trustProxy = Some t\<rparr>
       = sslMiddleware redirect \<lparr>opt_disabled = d, opt_trustProxy = t\<rparr>
   \<and> force redirect NODE_ENV \<lparr>disabled = None, trustProxy = None\<rparr>
       = sslMiddleware redirect
           \<lparr>opt_disabled = (NODE_ENV \<noteq> Some ''production''), opt_trustProxy = False\<rparr>"
  by (simp add: sslMiddleware_def Let_def replace_http_def response_set_status_def
      force_def force_opt_def)

lemma ajaxApiPassthrough_never_throws: "fst (ajaxApiPassthrough stringify fetch c) = None"
  by (simp add: ajaxApiPassthrough_def ajax_catch_def Let_def split: sum.splits option.splits)

lemma ajaxApiPassthrough_fetch_failure:
  "fetch (passthrough_url c) (passthrough_init stringify c) = Inl e \<Longrightarrow>
   ajaxApiPassthrough stringify fetch c =
     (None, c\<lparr>response :=
        response_set_body (JStr (message e)) (response_set_status 500 (response c))\<rparr>)"
  by (simp add: ajaxApiPassthrough_def ajax_catch_def)

lemma ajaxApiPassthrough_relay:
  "fetch (passthrough_url c) (passthrough_init stringify c) = Inr upstream \<Longrightarrow>
   fr_content_type upstream = Some content_type \<Longrightarrow>
   (if search [Lit ''application/json''] content_type \<noteq> None
    then fr_json upstream = Inr v else fr_text upstream = Inr t \<and> v = JStr t) \<Longrightarrow>
   ajaxApiPassthrough stringify fetch c =
     (None, c\<lparr>response :=
        response_set_body v (response_set_status (fr_status upstream) (response c))\<rparr>)"
  by (auto simp add: ajaxApiPassthrough_def Let_def split: if_splits)

text \<open>
  C4. The handler does not relay an upstream response that has no content-type header,
  such as the 204 with which the list operation of the API answers when no row matches:
  reading the header gives null, the call of \<^verbatim>\<open>match\<close> on it throws inside the
  \<^verbatim>\<open>try\<close> block, and the client receives status 500 with the type error's message
  instead of the upstream status and body.
\<close>

theorem ajaxApiPassthrough_no_content_type:
  "ajaxApiPassthrough stringify
     (\<lambda>url init. Inr \<lparr>fr_status = 204, fr_content_type = None,
                       fr_json = Inl (Error ''Unexpected end of JSON input''),
                       fr_text = Inr []\<rparr>)
     (c\<lparr>response := new_response\<rparr>)
   = (None, c\<lparr>response :=
        \<lparr>res_status = 500, res_explicitStatus = True,
         res_body = JStr ''Cannot read properties of null (reading 'match')'', res_header = []\<rparr>\<rparr>)"
  by (simp add: ajaxApiPassthrough_def ajax_catch_def response_set_body_def
      response_set_status_def new_response_def empty_status_def)


section \<open>Properties of the Members handlers\<close>

text \<open>
  C2. When the role of the authenticated user is not \<^verbatim>\<open>admin\<close>, each of the three
  mutating handlers (create, update, delete) throws 403 \<^verbatim>\<open>Admin auth required\<close> and
  leaves the context and the database as they were, whatever the data-access layer
  would do if it were called: the role check comes before every statement and every
  existence check.
\<close>

theorem mutation_requires_admin:
  "Role (auth c) \<noteq> Some ''admin'' \<Longrightarrow>
     postMembers toStr M c s = (Some (HttpError 403 ''Admin auth required''), c, s)
     \<and> patchMemberById M c s = (Some (HttpError 403 ''Admin auth required''), c, s)
     \<and> deleteMemberById M c s = (Some (HttpError 403 ''Admin auth required''), c, s)"
  by (simp add: postMembers_def patchMemberById_def deleteMemberById_def)

theorem mutation_requires_admin_witness:
  "Role \<lparr>Role = Some ''member'', jwt = ''t''\<rparr> \<noteq> Some ''admin''
   \<and> deleteMemberById
        \<lparr>Member_get = (\<lambda>i s. (Inr (JObj []), s\<lparr>database := Suc (database s)\<rparr>)),
         Member_insert = (\<lambda>b s. (Inr (JNum (Finite 1)), s\<lparr>database := Suc (database s)\<rparr>)),
         Member_update = (\<lambda>i b s. (Inr JUndefined, s\<lparr>database := Suc (database s)\<rparr>)),
         Member_delete = (\<lambda>i s. (Inr JUndefined, s\<lparr>database := Suc (database s)\<rparr>)),
         castBoolean_fromStrings = (\<lambda>t b s. (Inr b, s\<lparr>database := Suc (database s)\<rparr>))\<rparr>
        \<lparr>request = \<lparr>req_method = ''DELETE'', req_url = ''/members/7'',
                     req_href = ''https://api.app.com/members/7'',
                     req_host = ''api.app.com'', req_protocol = ''https'', req_secure = True,
                     req_querystring = [], req_query = [], req_header = [],
                     req_body = JObj []\<rparr>,
         response = new_response, auth = \<lparr>Role = Some ''member'', jwt = ''t''\<rparr>, params_id = ''7''\<rparr>
        \<lparr>connectionPool = None, database = (0::nat)\<rparr>
      = (Some (HttpError 403 ''Admin auth required''),
         \<lparr>request = \<lparr>req_method = ''DELETE'', req_url = ''/members/7'',
                     req_href = ''https://api.app.com/members/7'',
                     req_host = ''api.app.com'', req_protocol = ''https'', req_secure = True,
                     req_querystring = [], req_query = [], req_header = [],
                     req_body = JObj []\<rparr>,
         response = new_response, auth = \<lparr>Role = Some ''member'', jwt = ''t''\<rparr>, params_id = ''7''\<rparr>,
         \<lparr>connectionPool = None, database = (0::nat)\<rparr>)"
proof -
  let ?M = "\<lparr>Member_get = (\<lambda>i s. (Inr (JObj []), s\<lparr>database := Suc (database s)\<rparr>)),
         Member_insert = (\<lambda>b s. (Inr (JNum (Finite 1)), s\<lparr>database := Suc (database s)\<rparr>)),
         Member_update = (\<lambda>i b s. (Inr JUndefined, s\<lparr>database := Suc (database s)\<rparr>)),
         Member_delete = (\<lambda>i s. (Inr JUndefined, s\<lparr>database := Suc (database s)\<rparr>)),
         castBoolean_fromStrings = (\<lambda>t b s. (Inr b, s\<lparr>database := Suc (database s)\<rparr>))\<rparr>"
  let ?c = "\<lparr>request = \<lparr>req_method = ''DELETE'', req_url = ''/members/7'',
                     req_href = ''https://api.app.com/members/7'',
                     req_host = ''api.app.com'', req_protocol = ''https'', req_secure = True,
                     req_querystring = [], req_query = [], req_header = [],
                     req_body = JObj []\<rparr>,
         response = new_response, auth = \<lparr>Role = Some ''member'', jwt = ''t''\<rparr>, params_id = ''7''\<rparr>"
  have role: "Role (auth ?c) \<noteq> Some ''admin''" by simp
  have "deleteMemberById ?M ?c \<lparr>connectionPool = None, database = (0::nat)\<rparr>
      = (Some (HttpError 403 ''Admin auth required''), ?c, \<lparr>connectionPool = None, database = (0::nat)\<rparr>)"
    using mutation_requires_admin [OF role, of "\<lambda>v. []" ?M "\<lparr>connectionPool = None, database = (0::nat)\<rparr>"]
    by (rule conjunct2 [THEN conjunct2])
  then show ?thesis by simp
qed
















lemma getMembers_sql_unfiltered:
  "req_querystring req = [] \<Longrightarrow>
   getMembers_sql req = ''Select * From Member Order By Firstname, Lastname''"
  by (simp add: getMembers_sql_def)





text \<open>
  C7. When the store answers the list statement with rows: for zero rows the handler
  sets status 204 and sets no body (the body stays unset, or is cleared); for one row or
  more the body is the array of the rows' projections to \<^verbatim>\<open>_id\<close> and \<^verbatim>\<open>_uri\<close>, in the
  rows' order, with the property \<^verbatim>\<open>root\<close> set to \<^verbatim>\<open>Members\<close>, and the status is 200
  unless one was set before.
\<close>

theorem getMembers_rows:
  assumes "Db_query lower driver env (getMembers_sql (request c)) (JObj (req_query (request c))) s
             = (Inr (rows, fs), s1)"
  shows "getMembers toStr lower driver env c s =
           (None,
            c\<lparr>response :=
                 (if rows = [] then response_set_status 204 (response c)
                  else (response_set_body
                          (JArr (map (\<lambda>row. member_summary toStr (cast_row fs row)) rows) [])
                          (response c))
                        \<lparr>res_body :=
                           JArr (map (\<lambda>row. member_summary toStr (cast_row fs row)) rows)
                             [(''root'', JStr ''Members'')]\<rparr>)\<rparr>,
            s1)
       \<and> res_status (response_set_status 204 (response c)) = 204
       \<and> \<not> truthy (res_body (response_set_status 204 (response c)))
       \<and> res_body (response_set_status 204 new_response) = JUndefined
       \<and> res_status (response_set_body (JArr xs ps) new_response) = 200"
  using assms
  by (simp add: getMembers_def castBoolean_fromMysql_def Let_def response_set_body_def
      response_set_status_def new_response_def empty_status_def assign_def comp_def)


theorem getMembers_rows_witness:
  "getMembers (\<lambda>v. case v of JStr t \<Rightarrow> t | _ \<Rightarrow> []) toLowerCase
     (\<lambda>cfg sql vals db. (Inr (db, [(''Active'', True)]), db))
     None
     \<lparr>request = \<lparr>req_method = ''GET'', req_url = ''/members'',
                  req_href = ''https://api.app.com/members'',
                  req_host = ''api.app.com'', req_protocol = ''https'', req_secure = True,
                  req_querystring = [], req_query = [], req_header = [], req_body = JObj []\<rparr>,
      response = new_response, auth = \<lparr>Role = Some ''member'', jwt = ''t''\<rparr>, params_id = []\<rparr>
     \<lparr>connectionPool = Some [], database = []\<rparr>
   = (None,
      \<lparr>request = \<lparr>req_method = ''GET'', req_url = ''/members'',
                  req_href = ''https://api.app.com/members'',
                  req_host = ''api.app.com'', req_protocol = ''https'', req_secure = True,
                  req_querystring = [], req_query = [], req_header = [], req_body = JObj []\<rparr>,
       response = \<lparr>res_status = 204, res_explicitStatus = True, res_body = JUndefined,
                    res_header = []\<rparr>,
       auth = \<lparr>Role = Some ''member'', jwt = ''t''\<rparr>, params_id = []\<rparr>,
      \<lparr>connectionPool = Some [], database = []\<rparr>)
   \<and> getMembers (\<lambda>v. case v of JStr t \<Rightarrow> t | _ \<Rightarrow> []) toLowerCase
     (\<lambda>cfg sql vals db. (Inr (db, [(''Active'', True)]), db))
     None
     \<lparr>request = \<lparr>req_method = ''GET'', req_url = ''/members'',
                  req_href = ''https://api.app.com/members'',
                  req_host = ''api.app.com'', req_protocol = ''https'', req_secure = True,
                  req_querystring = [], req_query = [], req_header = [], req_body = JObj []\<rparr>,
      response = new_response, auth = \<lparr>Role = Some ''member'', jwt = ''t''\<rparr>, params_id = []\<rparr>
     \<lparr>connectionPool = Some [],
      database = [[(''MemberId'', JStr ''7''), (''Firstname'', JStr ''Ann''), (''Active'', JStr ''TRUE'')],
                  [(''MemberId'', JStr ''9''), (''Firstname'', JStr ''Bob''), (''Active'', JStr ''false'')]]\<rparr>
   = (None,
      \<lparr>request = \<lparr>req_method = ''GET'', req_url = ''/members'',
                  req_href = ''https://api.app.com/members'',
                  req_host = ''api.app.com'', req_protocol = ''https'', req_secure = True,
                  req_querystring = [], req_query = [], req_header = [], req_body = JObj []\<rparr>,
       response = \<lparr>res_status = 200, res_explicitStatus = False,
                    res_body = JArr [JObj [(''_id'', JStr ''7''), (''_uri'', JStr ''/members/7'')],
                                     JObj [(''_id'', JStr ''9''), (''_uri'', JStr ''/members/9'')]]
                                 [(''root'', JStr ''Members'')],
                    res_header = []\<rparr>,
       auth = \<lparr>Role = Some ''member'', jwt = ''t''\<rparr>, params_id = []\<rparr>,
      \<lparr>connectionPool = Some [],
      database = [[(''MemberId'', JStr ''7''), (''Firstname'', JStr ''Ann''), (''Active'', JStr ''TRUE'')],
                  [(''MemberId'', JStr ''9''), (''Firstname'', JStr ''Bob''), (''Active'', JStr ''false'')]]\<rparr>)"
proof -
  let ?toStr = "\<lambda>v. case v of JStr t \<Rightarrow> t | _ \<Rightarrow> []"
  let ?driver = "\<lambda>(cfg::jsobj) (sql::string) (vals::jsval) (db::jsobj list).
      (Inr (db, [(''Active'', True)]) :: exn + result, db)"
  let ?c = "\<lparr>request = \<lparr>req_method = ''GET'', req_url = ''/members'',
                  req_href = ''https://api.app.com/members'',
                  req_host = ''api.app.com'', req_protocol = ''https'', req_secure = True,
                  req_querystring = [], req_query = [], req_header = [], req_body = JObj []\<rparr>,
      response = new_response, auth = \<lparr>Role = Some ''member'', jwt = ''t''\<rparr>, params_id = []\<rparr>"
  let ?rows = "[[(''MemberId'', JStr ''7''), (''Firstname'', JStr ''Ann''), (''Active'', JStr ''TRUE'')],
                  [(''MemberId'', JStr ''9''), (''Firstname'', JStr ''Bob''), (''Active'', JStr ''false'')]]"
  let ?s0 = "\<lparr>connectionPool = Some [], database = [] :: jsobj list\<rparr>"
  let ?s2 = "\<lparr>connectionPool = Some [], database = ?rows\<rparr>"
  have q0: "Db_query toLowerCase ?driver None (getMembers_sql (request ?c)) (JObj (req_query (request ?c))) ?s0
      = (Inr ([], [(''Active'', True)]), ?s0)"
    by (simp add: Db_query_def)
  have q2: "Db_query toLowerCase ?driver None (getMembers_sql (request ?c)) (JObj (req_query (request ?c))) ?s2
      = (Inr (?rows, [(''Active'', True)]), ?s2)"
    by (simp add: Db_query_def)
  have low: "toLowerCase ''TRUE'' = ''true''" "toLowerCase ''false'' = ''false''" by code_simp+
  from getMembers_rows [OF q0, of ?toStr] getMembers_rows [OF q2, of ?toStr]
  show ?thesis
    by (simp add: new_response_def response_set_status_def response_set_body_def
        empty_status_def member_summary_def cast_row_def get_prop_def low)
qed

lemma getMemberById_absent:
  "connectionPool s = Some cfg \<Longrightarrow> map_of (database s) (params_id c) = None \<Longrightarrow>
   getMemberById lower table_driver env c s
     = (Some (HttpError 404 (''No member '' @ params_id c @ '' found'')), c, s)"
  by (simp add: getMemberById_def Db_query_def table_driver_def castBoolean_fromMysql_def)

text \<open>
  C8. A delete request by an admin, with the data-access layer of the specification
  and the pool set up. When the id exists, the handler ends normally with the row as
  fetched before the deletion as body, with \<^verbatim>\<open>root\<close> set to \<^verbatim>\<open>Member\<close> and every other
  property as in the row, and status 200 unless one was set before; the row is removed
  from the table, so that a get for the same id on the resulting database throws 404.
  When the id does not exist, the handler throws 404 with a message naming the id, and
  the database is as it was.
\<close>

theorem deleteMemberById_spec:
  assumes admin: "Role (auth c) = Some ''admin''"
    and dal: "Member_get M = table_get" "Member_delete M = table_delete"
    and pool: "connectionPool s = Some cfg"
    and same: "params_id c2 = params_id c"
  shows "(case map_of (database s) (params_id c) of
            Some row \<Rightarrow>
              deleteMemberById M c s =
                (None,
                 c\<lparr>response :=
                      (response_set_body (JObj row) (response c))
                        \<lparr>res_body := JObj (assign ''root'' (JStr ''Member'') row)\<rparr>\<rparr>,
                 s\<lparr>database := AList.delete (params_id c) (database s)\<rparr>)
              \<and> res_status (response_set_body (JObj row) (response c))
                  = (if res_explicitStatus (response c) then res_status (response c) else 200)
              \<and> map_of (assign ''root'' (JStr ''Member'') row)
                  = (map_of row)(''root'' \<mapsto> JStr ''Member'')
              \<and> getMemberById lower table_driver env c2 (snd (snd (deleteMemberById M c s)))
                  = (Some (HttpError 404 (''No member '' @ params_id c @ '' found'')), c2,
                     snd (snd (deleteMemberById M c s)))
          | None \<Rightarrow>
              deleteMemberById M c s
                = (Some (HttpError 404 (''No member '' @ params_id c @ '' found'')), c, s))"
proof (cases "map_of (database s) (params_id c)")
  case None
  then show ?thesis
    using admin dal by (simp add: deleteMemberById_def table_get_def)
next
  case (Some row)
  let ?s' = "s\<lparr>database := AList.delete (params_id c) (database s)\<rparr>"
  have del: "deleteMemberById M c s =
                (None,
                 c\<lparr>response :=
                      (response_set_body (JObj row) (response c))
                        \<lparr>res_body := JObj (assign ''root'' (JStr ''Member'') row)\<rparr>\<rparr>,
                 ?s')"
    using admin dal Some
    by (simp add: deleteMemberById_def table_get_def table_delete_def Let_def
        response_set_body_def)
  have status: "res_status (response_set_body (JObj row) (response c))
                  = (if res_explicitStatus (response c) then res_status (response c) else 200)"
    by (simp add: response_set_body_def)
  have props: "map_of (assign ''root'' (JStr ''Member'') row)
                  = (map_of row)(''root'' \<mapsto> JStr ''Member'')"
    by (simp add: assign_def update_conv')
  have gone: "map_of (database ?s') (params_id c2) = None"
    using same by (simp add: delete_conv')
  have "connectionPool ?s' = Some cfg" using pool by simp
  from getMemberById_absent [OF this gone, of lower env]
  have get: "getMemberById lower table_driver env c2 ?s'
      = (Some (HttpError 404 (''No member '' @ params_id c @ '' found'')), c2, ?s')"
    using same by simp
  from Some del status props get show ?thesis by simp
qed


theorem deleteMemberById_spec_witness:
  "deleteMemberById
     \<lparr>Member_get = table_get,
      Member_insert = (\<lambda>b s. (Inr JUndefined, s)),
      Member_update = (\<lambda>i b s. (Inr JUndefined, s)),
      Member_delete = table_delete,
      castBoolean_fromStrings = (\<lambda>t b s. (Inr b, s))\<rparr>
     \<lparr>request = \<lparr>req_method = ''DELETE'', req_url = ''/members/7'',
                  req_href = ''https://api.app.com/members/7'',
                  req_host = ''api.app.com'', req_protocol = ''https'', req_secure = True,
                  req_querystring = [], req_query = [], req_header = [], req_body = JObj []\<rparr>,
      response = new_response, auth = \<lparr>Role = Some ''admin'', jwt = ''t''\<rparr>, params_id = ''7''\<rparr>
     \<lparr>connectionPool = Some [], database = [(''7'', [(''MemberId'', JNum (Finite 7)), (''Firstname'', JStr ''Ann'')]), (''9'', [(''MemberId'', JNum (Finite 9)), (''Firstname'', JStr ''Bob'')])]\<rparr>
   = (None,
      \<lparr>request = \<lparr>req_method = ''DELETE'', req_url = ''/members/7'',
                  req_href = ''https://api.app.com/members/7'',
                  req_host = ''api.app.com'', req_protocol = ''https'', req_secure = True,
                  req_querystring = [], req_query = [], req_header = [], req_body = JObj []\<rparr>,
      response = \<lparr>res_status = 200, res_explicitStatus = False,
                   res_body = JObj [(''MemberId'', JNum (Finite 7)), (''Firstname'', JStr ''Ann''),
                                    (''root'', JStr ''Member'')],
                   res_header = []\<rparr>, auth = \<lparr>Role = Some ''admin'', jwt = ''t''\<rparr>, params_id = ''7''\<rparr>,
      \<lparr>connectionPool = Some [], database = [(''9'', [(''MemberId'', JNum (Finite 9)), (''Firstname'', JStr ''Bob'')])]\<rparr>)
   \<and> getMemberById toLowerCase table_driver None
       \<lparr>request = \<lparr>req_method = ''DELETE'', req_url = ''/members/7'',
                  req_href = ''https://api.app.com/members/7'',
                  req_host = ''api.app.com'', req_protocol = ''https'', req_secure = True,
                  req_querystring = [], req_query = [], req_header = [], req_body = JObj []\<rparr>,
      response = new_response, auth = \<lparr>Role = Some ''admin'', jwt = ''t''\<rparr>, params_id = ''7''\<rparr>
       \<lparr>connectionPool = Some [], database = [(''9'', [(''MemberId'', JNum (Finite 9)), (''Firstname'', JStr ''Bob'')])]\<rparr>
     = (Some (HttpError 404 ''No member 7 found''),
        \<lparr>request = \<lparr>req_method = ''DELETE'', req_url = ''/members/7'',
                  req_href = ''https://api.app.com/members/7'',
                  req_host = ''api.app.com'', req_protocol = ''https'', req_secure = True,
                  req_querystring = [], req_query = [], req_header = [], req_body = JObj []\<rparr>,
      response = new_response, auth = \<lparr>Role = Some ''admin'', jwt = ''t''\<rparr>, params_id = ''7''\<rparr>,
        \<lparr>connectionPool = Some [], database = [(''9'', [(''MemberId'', JNum (Finite 9)), (''Firstname'', JStr ''Bob'')])]\<rparr>)
   \<and> deleteMemberById
       \<lparr>Member_get = table_get,
      Member_insert = (\<lambda>b s. (Inr JUndefined, s)),
      Member_update = (\<lambda>i b s. (Inr JUndefined, s)),
      Member_delete = table_delete,
      castBoolean_fromStrings = (\<lambda>t b s. (Inr b, s))\<rparr>
       \<lparr>request = \<lparr>req_method = ''DELETE'', req_url = ''/members/8'',
                  req_href = ''https://api.app.com/members/8'',
                  req_host = ''api.app.com'', req_protocol = ''https'', req_secure = True,
                  req_querystring = [], req_query = [], req_header = [], req_body = JObj []\<rparr>,
      response = new_response, auth = \<lparr>Role = Some ''admin'', jwt = ''t''\<rparr>, params_id = ''8''\<rparr>
       \<lparr>connectionPool = Some [], database = [(''7'', [(''MemberId'', JNum (Finite 7)), (''Firstname'', JStr ''Ann'')]), (''9'', [(''MemberId'', JNum (Finite 9)), (''Firstname'', JStr ''Bob'')])]\<rparr>
     = (Some (HttpError 404 ''No member 8 found''),
        \<lparr>request = \<lparr>req_method = ''DELETE'', req_url = ''/members/8'',
                  req_href = ''https://api.app.com/members/8'',
                  req_host = ''api.app.com'', req_protocol = ''https'', req_secure = True,
                  req_querystring = [], req_query = [], req_header = [], req_body = JObj []\<rparr>,
      response = new_response, auth = \<lparr>Role = Some ''admin'', jwt = ''t''\<rparr>, params_id = ''8''\<rparr>,
        \<lparr>connectionPool = Some [], database = [(''7'', [(''MemberId'', JNum (Finite 7)), (''Firstname'', JStr ''Ann'')]), (''9'', [(''MemberId'', JNum (Finite 9)), (''Firstname'', JStr ''Bob'')])]\<rparr>)"
proof -
  let ?M = "\<lparr>Member_get = table_get,
      Member_insert = (\<lambda>b s. (Inr JUndefined, s)),
      Member_update = (\<lambda>i b s. (Inr JUndefined, s)),
      Member_delete = table_delete,
      castBoolean_fromStrings = (\<lambda>t b s. (Inr b, s))\<rparr>"
  let ?c7 = "\<lparr>request = \<lparr>req_method = ''DELETE'', req_url = ''/members/7'',
                  req_href = ''https://api.app.com/members/7'',
                  req_host = ''api.app.com'', req_protocol = ''https'', req_secure = True,
                  req_querystring = [], req_query = [], req_header = [], req_body = JObj []\<rparr>,
      response = new_response, auth = \<lparr>Role = Some ''admin'', jwt = ''t''\<rparr>, params_id = ''7''\<rparr>"
  let ?c8 = "\<lparr>request = \<lparr>req_method = ''DELETE'', req_url = ''/members/8'',
                  req_href = ''https://api.app.com/members/8'',
                  req_host = ''api.app.com'', req_protocol = ''https'', req_secure = True,
                  req_querystring = [], req_query = [], req_header = [], req_body = JObj []\<rparr>,
      response = new_response, auth = \<lparr>Role = Some ''admin'', jwt = ''t''\<rparr>, params_id = ''8''\<rparr>"
  let ?s = "\<lparr>connectionPool = Some [], database = [(''7'', [(''MemberId'', JNum (Finite 7)), (''Firstname'', JStr ''Ann'')]), (''9'', [(''MemberId'', JNum (Finite 9)), (''Firstname'', JStr ''Bob'')])]\<rparr>"
  have admin: "Role (auth ?c7) = Some ''admin''" "Role (auth ?c8) = Some ''admin''" by simp_all
  have dal: "Member_get ?M = table_get" "Member_delete ?M = table_delete" by simp_all
  have pool: "connectionPool ?s = Some []" by simp
  have same: "params_id ?c7 = params_id ?c7" "params_id ?c8 = params_id ?c8" by simp_all
  have look7: "map_of (database ?s) (params_id ?c7)
      = Some [(''MemberId'', JNum (Finite 7)), (''Firstname'', JStr ''Ann'')]"
    by simp
  have look8: "map_of (database ?s) (params_id ?c8) = None"
    by simp
  note found = deleteMemberById_spec [OF admin(1) dal pool same(1), of toLowerCase None,
      unfolded look7 option.case]
  note absent = deleteMemberById_spec [OF admin(2) dal pool same(2), of toLowerCase None,
      unfolded look8 option.case]
  have del: "deleteMemberById ?M ?c7 ?s
      = (None,
         ?c7\<lparr>response :=
               (response_set_body
                  (JObj [(''MemberId'', JNum (Finite 7)), (''Firstname'', JStr ''Ann'')])
                  (response ?c7))
                 \<lparr>res_body := JObj (assign ''root'' (JStr ''Member'')
                    [(''MemberId'', JNum (Finite 7)), (''Firstname'', JStr ''Ann'')])\<rparr>\<rparr>,
         ?s\<lparr>database := AList.delete (params_id ?c7) (database ?s)\<rparr>)"
    using found by (rule conjunct1)
  have get: "getMemberById toLowerCase table_driver None ?c7 (snd (snd (deleteMemberById ?M ?c7 ?s)))
      = (Some (HttpError 404 (''No member '' @ params_id ?c7 @ '' found'')), ?c7,
         snd (snd (deleteMemberById ?M ?c7 ?s)))"
    using found by (rule conjunct2 [THEN conjunct2, THEN conjunct2])
  have one: "deleteMemberById ?M ?c7 ?s = (None, \<lparr>request = \<lparr>req_method = ''DELETE'', req_url = ''/members/7'',
                  req_href = ''https://api.app.com/members/7'',
                  req_host = ''api.app.com'', req_protocol = ''https'', req_secure = True,
                  req_querystring = [], req_query = [], req_header = [], req_body = JObj []\<rparr>,
      response = \<lparr>res_status = 200, res_explicitStatus = False,
                   res_body = JObj [(''MemberId'', JNum (Finite 7)), (''Firstname'', JStr ''Ann''),
                                    (''root'', JStr ''Member'')],
                   res_header = []\<rparr>, auth = \<lparr>Role = Some ''admin'', jwt = ''t''\<rparr>, params_id = ''7''\<rparr>, \<lparr>connectionPool = Some [], database = [(''9'', [(''MemberId'', JNum (Finite 9)), (''Firstname'', JStr ''Bob'')])]\<rparr>)"
    unfolding del by (simp add: new_response_def response_set_body_def assign_def)
  have two: "getMemberById toLowerCase table_driver None ?c7 \<lparr>connectionPool = Some [], database = [(''9'', [(''MemberId'', JNum (Finite 9)), (''Firstname'', JStr ''Bob'')])]\<rparr>
      = (Some (HttpError 404 ''No member 7 found''), ?c7, \<lparr>connectionPool = Some [], database = [(''9'', [(''MemberId'', JNum (Finite 9)), (''Firstname'', JStr ''Bob'')])]\<rparr>)"
    using get unfolding one by simp
  have three: "deleteMemberById ?M ?c8 ?s = (Some (HttpError 404 ''No member 8 found''), ?c8, ?s)"
    using absent by simp
  from one two three show ?thesis by (intro conjI)
qed

end
